theory Spec2Isabelle
  imports Main "HOL-Library.Word" "HOL-Library.Multiset"
begin

unbundle bit_operations_syntax

section \<open>C library primitives used by fastfind\<close>

text \<open>
  Strings are byte lists. A C buffer read as a string ends at its first NUL byte.
  The character classes are those of the C locale.
\<close>

abbreviation NUL :: char where "NUL \<equiv> CHR 0x00"
abbreviation NL :: char where "NL \<equiv> CHR 0x0A"
abbreviation CR :: char where "CR \<equiv> CHR 0x0D"
abbreviation ESC :: char where "ESC \<equiv> CHR 0x1B"

definition c_str :: "string \<Rightarrow> string" where
  "c_str buf = takeWhile (\<lambda>c. c \<noteq> NUL) buf"

definition isspace :: "char \<Rightarrow> bool" where
  "isspace c = (let n = (of_char c :: nat) in n = 32 \<or> (9 \<le> n \<and> n \<le> 13))"

definition toupper :: "char \<Rightarrow> char" where
  "toupper c =
     (case map_of (zip ''abcdefghijklmnopqrstuvwxyz'' ''ABCDEFGHIJKLMNOPQRSTUVWXYZ'') c of
        Some u \<Rightarrow> u
      | None \<Rightarrow> c)"

definition tolower :: "char \<Rightarrow> char" where
  "tolower c =
     (case map_of (zip ''ABCDEFGHIJKLMNOPQRSTUVWXYZ'' ''abcdefghijklmnopqrstuvwxyz'') c of
        Some l \<Rightarrow> l
      | None \<Rightarrow> c)"

definition is_digit :: "nat \<Rightarrow> char \<Rightarrow> bool" where
  "is_digit base c = (let n = (of_char c :: nat) in 48 \<le> n \<and> n < 48 + base)"

definition digit_val :: "char \<Rightarrow> int" where
  "digit_val c = int (of_char c) - 48"

text \<open>
  \<open>strtol\<close>/\<open>strtoll\<close> for a base of at most ten: leading white space, an optional
  sign, then digits. The result pairs the value, clamped to the range of the result
  type, with the unparsed rest (\<open>endptr\<close>); when no digit is found the rest is the
  whole argument.
\<close>

definition strto :: "nat \<Rightarrow> int \<Rightarrow> int \<Rightarrow> string \<Rightarrow> int \<times> string" where
  "strto base lo hi str =
     (let s1 = dropWhile isspace str;
          neg = (s1 \<noteq> [] \<and> hd s1 = CHR ''-'');
          s2 = (if s1 \<noteq> [] \<and> (hd s1 = CHR ''-'' \<or> hd s1 = CHR ''+'') then tl s1 else s1);
          ds = takeWhile (is_digit base) s2
      in if ds = [] then (0, str)
         else (let v = foldl (\<lambda>a d. a * int base + digit_val d) 0 ds;
                   sv = (if neg then - v else v)
               in (max lo (min hi sv), drop (length ds) s2)))"

definition LLONG_MAX :: int where "LLONG_MAX = 2 ^ 63 - 1"
definition LLONG_MIN :: int where "LLONG_MIN = - (2 ^ 63)"

definition strtoll :: "string \<Rightarrow> int \<times> string" where
  "strtoll str = strto 10 LLONG_MIN LLONG_MAX str"

text \<open>\<open>long\<close> has 64 bits on the LP64 targets of the tool.\<close>

definition strtol :: "nat \<Rightarrow> string \<Rightarrow> int \<times> string" where
  "strtol base str = strto base LLONG_MIN LLONG_MAX str"

text \<open>
  Arithmetic on \<open>long long\<close> and \<open>long\<close> is modelled on \<open>int\<close> with the two's
  complement wrap-around of the 64-bit multiplication written out.
\<close>

definition wrap64 :: "int \<Rightarrow> int" where
  "wrap64 x = signed_take_bit 63 x"

text \<open>The conversion of a wider integer to \<open>int\<close>: the low 32 bits, read as signed.\<close>

definition wrap32 :: "int \<Rightarrow> int" where
  "wrap32 x = signed_take_bit 31 x"

text \<open>
  \<open>fgets (buf, n, fp)\<close> on the unread rest of a file: at most \<open>n - 1\<close> bytes, stopping
  after a newline; \<open>None\<close> at end of file. \<open>file_chunks\<close> is the sequence of buffers
  that successive calls return until the call that returns \<open>NULL\<close>.
\<close>

definition fgets :: "nat \<Rightarrow> string \<Rightarrow> (string \<times> string) option" where
  "fgets n s =
     (if s = [] then None
      else (let lim = take (n - 1) s;
                pre = takeWhile (\<lambda>c. c \<noteq> NL) lim
            in if length pre < length lim
               then Some (pre @ [NL], drop (length pre + 1) s)
               else Some (lim, drop (length lim) s)))"

lemma fgets_shorter:
  assumes "fgets n s = Some (buf, rest)" and "2 \<le> n"
  shows "length rest < length s"
proof -
  from assms(1) have ne: "s \<noteq> []"
    by (auto simp: fgets_def split: if_splits)
  then have "0 < length s" by simp
  moreover from ne assms(2) have "0 < length (take (n - 1) s)" by simp
  ultimately show ?thesis
    using assms(1) by (auto simp: fgets_def Let_def split: if_splits)
qed

function file_chunks :: "nat \<Rightarrow> string \<Rightarrow> string list" where
  "file_chunks n s =
     (if n < 2 then []
      else (case fgets n s of
              None \<Rightarrow> []
            | Some (buf, rest) \<Rightarrow> buf # file_chunks n rest))"
  by pat_completeness auto
termination
  by (relation "measure (\<lambda>(n, s). length s)") (auto dest: fgets_shorter)

declare file_chunks.simps [simp del]

text \<open>Decimal rendering, as \<open>printf\<close> does for \<open>%d\<close>, \<open>%ld\<close> and \<open>%lld\<close>.\<close>

fun show_nat :: "nat \<Rightarrow> string" where
  "show_nat n = (if n < 10 then [''0123456789'' ! n]
                 else show_nat (n div 10) @ [''0123456789'' ! (n mod 10)])"

declare show_nat.simps [simp del]

definition show_int :: "int \<Rightarrow> string" where
  "show_int i = (if i < 0 then CHR ''-'' # show_nat (nat (- i)) else show_nat (nat i))"

definition pad_left :: "nat \<Rightarrow> string \<Rightarrow> string" where
  "pad_left w s = replicate (w - length s) CHR '' '' @ s"

definition pad_right :: "nat \<Rightarrow> string \<Rightarrow> string" where
  "pad_right w s = s @ replicate (w - length s) CHR '' ''"


section \<open>Data model of fastfind\<close>

subsection \<open>File metadata\<close>

type_synonym mode_t = "32 word"

definition S_IFMT :: mode_t where "S_IFMT = 0xF000"
definition S_IFDIR :: mode_t where "S_IFDIR = 0x4000"
definition S_IFREG :: mode_t where "S_IFREG = 0x8000"
definition S_IFLNK :: mode_t where "S_IFLNK = 0xA000"
definition S_IXUSR :: mode_t where "S_IXUSR = 0x40"

definition S_ISDIR :: "mode_t \<Rightarrow> bool" where
  "S_ISDIR m = (m AND S_IFMT = S_IFDIR)"

definition S_ISREG :: "mode_t \<Rightarrow> bool" where
  "S_ISREG m = (m AND S_IFMT = S_IFREG)"

definition S_ISLNK :: "mode_t \<Rightarrow> bool" where
  "S_ISLNK m = (m AND S_IFMT = S_IFLNK)"

record stat =
  st_mode :: mode_t
  st_nlink :: int
  st_uid :: nat
  st_gid :: nat
  st_size :: int
  st_mtime :: int

subsection \<open>The environment: file system snapshot and library oracles\<close>

text \<open>
  The walk reads the file system through \<open>opendir\<close>/\<open>readdir\<close>, \<open>lstat\<close> and
  \<open>fopen\<close>, each a function of the path; \<open>None\<close> is the failing call. \<open>opendir\<close>
  gives the names in the order \<open>readdir\<close> returns them. The glob matcher of the
  C library, the regex compiler, the clock, the time formatter and the user database are
  parameters as well. \<open>fopen_w\<close> opens the output file for writing: \<open>None\<close> when
  that fails, otherwise whether the new stream can seek; \<open>stdout_seekable\<close> says the
  same of standard output: true when it is redirected to a regular file that is not opened
  for appending. On a file opened for appending every write lands at the end whatever the
  position, as it does on a stream that cannot seek, and the flag is false. \<open>regerror\<close>
  is the message for a pattern that does not compile and \<open>fopen_w_error\<close> the text of
  \<open>strerror\<close> for an output file that cannot be opened.
\<close>

record env =
  opendir :: "string \<Rightarrow> string list option"
  lstat :: "string \<Rightarrow> stat option"
  fopen :: "string \<Rightarrow> string option"
  fnmatch :: "string \<Rightarrow> string \<Rightarrow> bool"
  now :: int
  strftime :: "int \<Rightarrow> string"
  getpwnam :: "string \<Rightarrow> nat option"
  geteuid :: nat
  regcomp :: "string \<Rightarrow> bool \<Rightarrow> (string \<Rightarrow> bool) option"
  nprocessors :: int
  stdout_isatty :: bool
  stdout_seekable :: bool
  fopen_w :: "string \<Rightarrow> bool option"
  time_spent :: string
  regerror :: "string \<Rightarrow> bool \<Rightarrow> string"
  fopen_w_error :: "string \<Rightarrow> string"

subsection \<open>Error messages (utils.c)\<close>

text \<open>
  The text that the two loggers write to standard error; \<open>log_system_error\<close> takes the
  formatted message and the text of \<open>strerror\<close>.
\<close>

definition BOLD_RED :: string where "BOLD_RED = ESC # ''[1;31m''"
definition GREY :: string where "GREY = ESC # ''[90m''"
definition RESET :: string where "RESET = ESC # ''[0m''"

definition log_error_with_hint :: "string \<Rightarrow> string option \<Rightarrow> string" where
  "log_error_with_hint err hint =
     BOLD_RED @ ''fastfind error: '' @ RESET @ err @ [NL] @
     (case hint of None \<Rightarrow> [] | Some h \<Rightarrow> GREY @ ''-> HINT: '' @ h @ RESET @ [NL])"

definition log_system_error :: "string \<Rightarrow> string \<Rightarrow> string" where
  "log_system_error msg err =
     BOLD_RED @ ''fastfind error: '' @ RESET @ msg @ '': '' @ err @ [NL]"

subsection \<open>Compiled patterns (regex_utils.c)\<close>

text \<open>
  \<open>compile_regex\<close> gives the compiled pattern, or logs the message of \<open>regerror\<close>, cut
  to its buffer of 256 bytes, and fails: \<open>Inl\<close> is the text written to standard error.
\<close>

record Regex =
  compiled :: bool
  regexec :: "string \<Rightarrow> bool"

definition no_regex :: Regex where
  "no_regex = \<lparr>compiled = False, regexec = (\<lambda>_. False)\<rparr>"

definition compile_regex :: "env \<Rightarrow> string \<Rightarrow> bool \<Rightarrow> string + Regex" where
  "compile_regex e pattern icase =
     (case regcomp e pattern icase of
        None \<Rightarrow> Inl (log_error_with_hint ''Invalid regex.''
                       (Some (take 255 (c_str (regerror e pattern icase)))))
      | Some f \<Rightarrow> Inr \<lparr>compiled = True, regexec = f\<rparr>)"

definition match_regex :: "Regex \<Rightarrow> string \<Rightarrow> bool" where
  "match_regex re text = (if \<not> compiled re then False else regexec re text)"

subsection \<open>Search configuration (search.h)\<close>

definition TYPE_FILE :: int where "TYPE_FILE = 1"
definition TYPE_DIR :: int where "TYPE_DIR = 2"
definition TYPE_LINK :: int where "TYPE_LINK = 4"

definition PATH_MAX :: nat where "PATH_MAX = 4096"

record search_config =
  root_dir :: string
  name_regex :: Regex
  content_regex :: Regex
  extension :: "string option"
  ignore_case :: bool
  max_depth :: int
  type_mask :: int
  use_colors :: bool
  output_format :: string
  output_file :: "string option"
  num_threads :: int
  size_filter :: int
  size_op :: int
  mtime_filter :: int
  mtime_op :: int
  owner_filter :: nat
  owner_filter_enabled :: bool
  perms_filter :: mode_t
  perms_filter_enabled :: bool
  exclude_dirs :: "string list"
  ignore_vcs :: bool
  no_hidden :: bool
  exec_command :: "string option"
  delete_files :: bool
  interactive_delete :: bool
  long_listing :: bool
  with_line_number :: bool

definition init_search_config :: search_config where
  "init_search_config =
     \<lparr>root_dir = ''.'', name_regex = no_regex, content_regex = no_regex,
      extension = None, ignore_case = False, max_depth = - 1, type_mask = 0,
      use_colors = True, output_format = ''text'', output_file = None,
      num_threads = 1, size_filter = - 1, size_op = 0, mtime_filter = - 1,
      mtime_op = 0, owner_filter = 0, owner_filter_enabled = False,
      perms_filter = 0, perms_filter_enabled = False, exclude_dirs = [],
      ignore_vcs = True, no_hidden = True, exec_command = None,
      delete_files = False, interactive_delete = False, long_listing = False,
      with_line_number = False\<rparr>"

section \<open>Argument parsers (utils.c) and option handling (main.c)\<close>

definition parse_size_string :: "string \<Rightarrow> int" where
  "parse_size_string str =
     (case strtoll str of (sz, endptr) \<Rightarrow>
        if endptr = str then - 1
        else (let suffix = (if endptr = [] then NUL else toupper (hd endptr))
              in if suffix = CHR ''G'' then wrap64 (wrap64 (wrap64 (sz * 1024) * 1024) * 1024)
                 else if suffix = CHR ''M'' then wrap64 (wrap64 (sz * 1024) * 1024)
                 else if suffix = CHR ''K'' then wrap64 (sz * 1024)
                 else if suffix = NUL then sz
                 else - 1))"

definition parse_time_string :: "string \<Rightarrow> int" where
  "parse_time_string str =
     (case strtol 10 str of (days, endptr) \<Rightarrow>
        if endptr = str \<or> (endptr \<noteq> [] \<and> hd endptr \<noteq> NUL \<and> toupper (hd endptr) \<noteq> CHR ''D'')
        then - 1
        else wrap64 (wrap64 (wrap64 (days * 24) * 60) * 60))"

definition parse_permissions :: "string \<Rightarrow> mode_t \<times> bool" where
  "parse_permissions perms_str =
     (case strtol 8 perms_str of (perms, endptr) \<Rightarrow>
        if c_str endptr \<noteq> [] \<or> perms < 0 \<or> perms > 511 then (0, False)
        else (word_of_int perms, True))"

definition get_uid_from_name :: "env \<Rightarrow> string \<Rightarrow> nat option" where
  "get_uid_from_name e username =
     (if c_str username = [] then Some (geteuid e) else getpwnam e username)"

text \<open>\<open>atoi\<close> is \<open>strtol\<close> in base ten with the \<open>long\<close> converted to \<open>int\<close>.\<close>

definition atoi :: "string \<Rightarrow> int" where
  "atoi str = wrap32 (fst (strtol 10 str))"

text \<open>
  The prefix handling shared by \<open>--size\<close> and \<open>--mtime\<close>: a leading \<open>+\<close> or \<open>-\<close>
  selects the comparator and is consumed, anything else selects \<open>0\<close>.
\<close>

definition op_prefix :: "string \<Rightarrow> int \<times> string" where
  "op_prefix optarg =
     (if optarg \<noteq> [] \<and> (hd optarg = CHR ''+'' \<or> hd optarg = CHR ''-'')
      then (if hd optarg = CHR ''+'' then 1 else - 1, tl optarg)
      else (0, optarg))"

text \<open>
  One option as \<open>getopt_long\<close> returns it. \<open>apply_option\<close> is one turn of the option
  loop of \<open>main\<close>: \<open>Inl\<close> is a \<open>return\<close> inside the loop, the exit code paired with
  the text written to standard error. The help and version texts go to the terminal and
  are left out.
\<close>

datatype option_t =
    Opt_pattern string | Opt_directory string | Opt_ext string | Opt_type string
  | Opt_ignore_case | Opt_max_depth string | Opt_long_listing | Opt_output string
  | Opt_help | Opt_version | Opt_show_hidden | Opt_content string | Opt_size string
  | Opt_mtime string | Opt_owner string | Opt_perms string | Opt_no_hidden
  | Opt_ignore_vcs | Opt_no_ignore | Opt_exclude string | Opt_exec string
  | Opt_delete | Opt_interactive | Opt_with_line_number | Opt_format string
  | Opt_threads string | Opt_unknown

record parsed_args =
  config :: search_config
  name_pattern :: "string option"
  content_pattern :: "string option"

definition type_mask_of :: "string \<Rightarrow> int" where
  "type_mask_of optarg =
     foldl (\<lambda>m c. if c = CHR ''f'' then m OR TYPE_FILE
                   else if c = CHR ''d'' then m OR TYPE_DIR
                   else if c = CHR ''l'' then m OR TYPE_LINK else m) 0 (c_str optarg)"

fun apply_option :: "env \<Rightarrow> option_t \<Rightarrow> parsed_args \<Rightarrow> (int \<times> string) + parsed_args" where
  "apply_option e (Opt_pattern a) p = Inr (p\<lparr>name_pattern := Some a\<rparr>)"
| "apply_option e (Opt_directory a) p = Inr (p\<lparr>config := (config p)\<lparr>root_dir := a\<rparr>\<rparr>)"
| "apply_option e (Opt_ext a) p = Inr (p\<lparr>config := (config p)\<lparr>extension := Some a\<rparr>\<rparr>)"
| "apply_option e (Opt_type a) p = Inr (p\<lparr>config := (config p)\<lparr>type_mask := type_mask_of a\<rparr>\<rparr>)"
| "apply_option e Opt_ignore_case p = Inr (p\<lparr>config := (config p)\<lparr>ignore_case := True\<rparr>\<rparr>)"
| "apply_option e (Opt_max_depth a) p = Inr (p\<lparr>config := (config p)\<lparr>max_depth := atoi a\<rparr>\<rparr>)"
| "apply_option e Opt_long_listing p = Inr (p\<lparr>config := (config p)\<lparr>long_listing := True\<rparr>\<rparr>)"
| "apply_option e (Opt_output a) p = Inr (p\<lparr>config := (config p)\<lparr>output_file := Some a\<rparr>\<rparr>)"
| "apply_option e Opt_help p = Inl (0, [])"
| "apply_option e Opt_version p = Inl (0, [])"
| "apply_option e Opt_show_hidden p = Inr (p\<lparr>config := (config p)\<lparr>no_hidden := False\<rparr>\<rparr>)"
| "apply_option e (Opt_content a) p = Inr (p\<lparr>content_pattern := Some a\<rparr>)"
| "apply_option e (Opt_size a) p =
     (case op_prefix a of (op, rest) \<Rightarrow>
        (let sz = parse_size_string rest
         in if sz < 0
            then Inl (1, log_error_with_hint ''Invalid size format.'' (Some ''Use N, NK, NM, NG.''))
            else Inr (p\<lparr>config := (config p)\<lparr>size_op := op, size_filter := sz\<rparr>\<rparr>)))"
| "apply_option e (Opt_mtime a) p =
     (case op_prefix a of (op, rest) \<Rightarrow>
        (let t = parse_time_string rest
         in if t < 0
            then Inl (1, log_error_with_hint ''Invalid mtime format.'' (Some ''Use Nd (e.g., 7d).''))
            else Inr (p\<lparr>config := (config p)\<lparr>mtime_op := op, mtime_filter := t\<rparr>\<rparr>)))"
| "apply_option e (Opt_owner a) p =
     (case get_uid_from_name e a of
        None \<Rightarrow> Inl (1, log_error_with_hint ''User not found.'' (Some ''Check username.''))
      | Some uid \<Rightarrow>
          Inr (p\<lparr>config := (config p)\<lparr>owner_filter := uid, owner_filter_enabled := True\<rparr>\<rparr>))"
| "apply_option e (Opt_perms a) p =
     (case parse_permissions a of (perms, ok) \<Rightarrow>
        if \<not> ok
        then Inl (1, log_error_with_hint ''Invalid permission format.''
                       (Some ''Use a 3-digit octal number.''))
        else Inr (p\<lparr>config := (config p)\<lparr>perms_filter := perms, perms_filter_enabled := True\<rparr>\<rparr>))"
| "apply_option e Opt_no_hidden p = Inr (p\<lparr>config := (config p)\<lparr>no_hidden := True\<rparr>\<rparr>)"
| "apply_option e Opt_ignore_vcs p = Inr (p\<lparr>config := (config p)\<lparr>ignore_vcs := True\<rparr>\<rparr>)"
| "apply_option e Opt_no_ignore p = Inr (p\<lparr>config := (config p)\<lparr>ignore_vcs := False\<rparr>\<rparr>)"
| "apply_option e (Opt_exclude a) p =
     Inr (p\<lparr>config := (config p)\<lparr>exclude_dirs := exclude_dirs (config p) @ [a]\<rparr>\<rparr>)"
| "apply_option e (Opt_exec a) p = Inr (p\<lparr>config := (config p)\<lparr>exec_command := Some a\<rparr>\<rparr>)"
| "apply_option e Opt_delete p = Inr (p\<lparr>config := (config p)\<lparr>delete_files := True\<rparr>\<rparr>)"
| "apply_option e Opt_interactive p = Inr (p\<lparr>config := (config p)\<lparr>interactive_delete := True\<rparr>\<rparr>)"
| "apply_option e Opt_with_line_number p = Inr (p\<lparr>config := (config p)\<lparr>with_line_number := True\<rparr>\<rparr>)"
| "apply_option e (Opt_format a) p = Inr (p\<lparr>config := (config p)\<lparr>output_format := a\<rparr>\<rparr>)"
| "apply_option e (Opt_threads a) p = Inr (p\<lparr>config := (config p)\<lparr>num_threads := atoi a\<rparr>\<rparr>)"
| "apply_option e Opt_unknown p = Inl (1, [])"

fun parse_options :: "env \<Rightarrow> option_t list \<Rightarrow> parsed_args \<Rightarrow> (int \<times> string) + parsed_args" where
  "parse_options e [] p = Inr p"
| "parse_options e (x # xs) p =
     (case apply_option e x p of Inl rc \<Rightarrow> Inl rc | Inr p' \<Rightarrow> parse_options e xs p')"


section \<open>Output stream\<close>

text \<open>
  A \<open>FILE\<close> opened for writing: the bytes written so far and the position of the next
  write. A write at a position before the end overwrites. \<open>fseek\<close> relative to the
  current position fails on a stream that cannot seek and on a negative target, and then
  changes nothing.
\<close>

record stream =
  data :: string
  pos :: nat
  seekable :: bool

definition new_stream :: "bool \<Rightarrow> stream" where
  "new_stream sk = \<lparr>data = [], pos = 0, seekable = sk\<rparr>"

definition fprintf :: "stream \<Rightarrow> string \<Rightarrow> stream" where
  "fprintf f s =
     f\<lparr>data := take (pos f) (data f) @ replicate (pos f - length (data f)) NUL @ s
                 @ drop (pos f + length s) (data f),
       pos := pos f + length s\<rparr>"

definition fseek_cur :: "stream \<Rightarrow> int \<Rightarrow> stream" where
  "fseek_cur f off =
     (if seekable f \<and> 0 \<le> int (pos f) + off then f\<lparr>pos := nat (int (pos f) + off)\<rparr> else f)"

section \<open>Ignore sets, tasks, the task pool and the shared state\<close>

record ignore_patterns =
  patterns :: "string list"
  refcount :: int

record task =
  path :: string
  current_depth :: int
  parent_ignore :: "nat option"

text \<open>
  The pool (threadpool.c): a ring of \<open>queue_size\<close> slots with the indices \<open>head\<close> and
  \<open>tail\<close> and the number \<open>count\<close> of queued tasks. Every queued function is
  \<open>search_directory\<close>, so a slot holds the argument only.
\<close>

record threadpool =
  queue :: "nat \<Rightarrow> task option"
  thread_count :: int
  queue_size :: nat
  head :: nat
  tail :: nat
  count :: nat
  shutdown :: bool

definition threadpool_create :: "int \<Rightarrow> int \<Rightarrow> threadpool option" where
  "threadpool_create n_threads q_size =
     (if n_threads \<le> 0 \<or> q_size \<le> 0 then None
      else Some \<lparr>queue = (\<lambda>_. None), thread_count = n_threads, queue_size = nat q_size,
                 head = 0, tail = 0, count = 0, shutdown = False\<rparr>)"

definition threadpool_add :: "threadpool \<Rightarrow> task \<Rightarrow> int \<times> threadpool" where
  "threadpool_add p t =
     (if count p = queue_size p \<or> shutdown p then (- 1, p)
      else (0, p\<lparr>queue := (queue p)(tail p := Some t),
                  tail := (tail p + 1) mod queue_size p,
                  count := count p + 1\<rparr>))"

text \<open>The dequeue of \<open>threadpool_worker\<close>; \<open>None\<close> when there is nothing to take.\<close>

definition threadpool_take :: "threadpool \<Rightarrow> (task \<times> threadpool) option" where
  "threadpool_take p =
     (if count p = 0 then None
      else (case queue p (head p) of
              None \<Rightarrow> None
            | Some t \<Rightarrow> Some (t, p\<lparr>head := (head p + 1) mod queue_size p,
                                     count := count p - 1\<rparr>)))"

definition threadpool_destroy :: "threadpool \<Rightarrow> threadpool" where
  "threadpool_destroy p = p\<lparr>shutdown := True\<rparr>"

text \<open>
  The external match actions (\<open>--exec\<close>, \<open>--delete\<close>) are recorded as events; what
  they do to the file system is outside the model.
\<close>

datatype hook_event = Exec string string | Delete string char bool

text \<open>
  The mutable state shared by all tasks: the pool, the heap of ignore sets (allocated at
  fresh addresses, removed when freed), the atomic counters and the streams.
\<close>

record world =
  pool :: threadpool
  heap :: "nat \<Rightarrow> ignore_patterns option"
  next_addr :: nat
  active_tasks :: int
  files_scanned :: int
  dirs_scanned :: int
  matches_found :: int
  out_stream :: stream
  err_stream :: string
  hooks :: "hook_event list"

section \<open>The search engine (search.c, regex_utils.c)\<close>

definition ends_with :: "string \<Rightarrow> string \<Rightarrow> bool \<Rightarrow> bool" where
  "ends_with str suffix icase =
     (let len_str = length str; len_suffix = length suffix
      in if len_suffix > len_str then False
         else (let start = drop (len_str - len_suffix) str
               in if icase then map tolower start = map tolower suffix
                  else start = suffix))"

text \<open>
  \<open>snprintf (buf, PATH_MAX, "%s/%s", dir, name)\<close>: the joined path, cut to
  the size of the buffer. It builds the path of an entry and the path of the ignore file.
\<close>

definition full_path_of :: "string \<Rightarrow> string \<Rightarrow> string" where
  "full_path_of dir d_name = take (PATH_MAX - 1) (dir @ ''/'' @ d_name)"

subsection \<open>Ignore files\<close>

text \<open>
  One line of the ignore file as the loop of \<open>load_ignore_file\<close> sees it: cut at the
  first newline or carriage return, skipped when empty or a comment, otherwise stripped
  of trailing white space down to its first byte at most.
\<close>

definition rstrip :: "string \<Rightarrow> string" where
  "rstrip line = (case line of [] \<Rightarrow> [] | c # cs \<Rightarrow> c # rev (dropWhile isspace (rev cs)))"

fun load_lines :: "string list \<Rightarrow> string list \<Rightarrow> string list" where
  "load_lines [] acc = acc"
| "load_lines (buf # rest) acc =
     (let line = takeWhile (\<lambda>c. c \<noteq> NL \<and> c \<noteq> CR) (c_str buf)
      in if line = [] \<or> hd line = CHR ''#'' then load_lines rest acc
         else load_lines rest (acc @ [rstrip line]))"

definition load_ignore_file :: "env \<Rightarrow> string \<Rightarrow> world \<Rightarrow> nat option \<times> world" where
  "load_ignore_file e dir_path w =
     (let ignore_path = full_path_of dir_path ''.gitignore''
      in case fopen e ignore_path of
           None \<Rightarrow> (None, w)
         | Some content \<Rightarrow>
             (let p = \<lparr>patterns = load_lines (file_chunks 1024 content) [], refcount = 1\<rparr>;
                  a = next_addr w
              in (Some a, w\<lparr>heap := (heap w)(a := Some p), next_addr := a + 1\<rparr>)))"

definition is_ignored ::
  "env \<Rightarrow> (nat \<Rightarrow> ignore_patterns option) \<Rightarrow> string \<Rightarrow> nat option \<Rightarrow> bool" where
  "is_ignored e hp name ptr =
     (case ptr of
        None \<Rightarrow> False
      | Some a \<Rightarrow> (case hp a of
                     None \<Rightarrow> False
                   | Some p \<Rightarrow> list_ex (\<lambda>pattern. fnmatch e pattern name) (patterns p)))"

definition refcount_add :: "nat \<Rightarrow> world \<Rightarrow> world" where
  "refcount_add a w =
     (case heap w a of
        None \<Rightarrow> w
      | Some p \<Rightarrow> w\<lparr>heap := (heap w)(a := Some (p\<lparr>refcount := refcount p + 1\<rparr>))\<rparr>)"

definition free_ignore_patterns :: "nat option \<Rightarrow> world \<Rightarrow> world" where
  "free_ignore_patterns ptr w =
     (case ptr of
        None \<Rightarrow> w
      | Some a \<Rightarrow> (case heap w a of
                     None \<Rightarrow> w
                   | Some p \<Rightarrow>
                       (let prev = refcount p
                        in if prev > 1
                           then w\<lparr>heap := (heap w)(a := Some (p\<lparr>refcount := prev - 1\<rparr>))\<rparr>
                           else w\<lparr>heap := (heap w)(a := None)\<rparr>)))"

subsection \<open>Content search\<close>

fun scan_chunks ::
  "search_config \<Rightarrow> string \<Rightarrow> string list \<Rightarrow> int \<Rightarrow> int \<Rightarrow> stream \<Rightarrow> int \<times> stream" where
  "scan_chunks cfg fpath [] line_num match_found out = (match_found, out)"
| "scan_chunks cfg fpath (buffer # rest) line_num match_found out =
     (if match_regex (content_regex cfg) (c_str buffer)
      then (if with_line_number cfg
            then scan_chunks cfg fpath rest (line_num + 1) 1
                   (fprintf out (fpath @ '':'' @ show_int line_num @ '':''
                                 @ takeWhile (\<lambda>c. c \<noteq> NL) (c_str buffer) @ [NL]))
            else (1, out))
      else scan_chunks cfg fpath rest (line_num + 1) match_found out)"

definition search_file_content ::
  "env \<Rightarrow> search_config \<Rightarrow> string \<Rightarrow> stream \<Rightarrow> int \<times> stream" where
  "search_file_content e cfg fpath out =
     (if \<not> compiled (content_regex cfg) then (- 1, out)
      else (case fopen e fpath of
              None \<Rightarrow> (- 1, out)
            | Some content \<Rightarrow> scan_chunks cfg fpath (file_chunks 4096 content) 1 0 out))"


subsection \<open>The entry filter\<close>

text \<open>
  The filter block of \<open>search_directory\<close>: \<open>is_match\<close> starts true and each stage, in
  the order of the source, may clear it. A stage is the function from the flag before
  its \<open>if\<close> statement to the flag after it; the content stage also carries the output
  stream, which \<open>search_file_content\<close> writes to.
\<close>

definition filter_type :: "search_config \<Rightarrow> stat \<Rightarrow> bool \<Rightarrow> bool" where
  "filter_type cfg sb is_match =
     (if \<not> ((S_ISDIR (st_mode sb) \<and> type_mask cfg AND TYPE_DIR \<noteq> 0) \<or>
             (S_ISREG (st_mode sb) \<and> type_mask cfg AND TYPE_FILE \<noteq> 0) \<or>
             (S_ISLNK (st_mode sb) \<and> type_mask cfg AND TYPE_LINK \<noteq> 0))
      then False else is_match)"

definition filter_name :: "search_config \<Rightarrow> string \<Rightarrow> bool \<Rightarrow> bool" where
  "filter_name cfg d_name is_match =
     (if is_match \<and> \<not> match_regex (name_regex cfg) d_name then False else is_match)"

definition filter_size :: "search_config \<Rightarrow> stat \<Rightarrow> bool \<Rightarrow> bool" where
  "filter_size cfg sb is_match =
     (if is_match \<and> size_filter cfg \<ge> 0
      then (if \<not> S_ISREG (st_mode sb) \<or>
               (size_op cfg > 0 \<and> st_size sb \<le> size_filter cfg) \<or>
               (size_op cfg < 0 \<and> st_size sb \<ge> size_filter cfg) \<or>
               (size_op cfg = 0 \<and> st_size sb \<noteq> size_filter cfg)
            then False else is_match)
      else is_match)"

definition filter_mtime :: "search_config \<Rightarrow> env \<Rightarrow> stat \<Rightarrow> bool \<Rightarrow> bool" where
  "filter_mtime cfg e sb is_match =
     (if is_match \<and> mtime_filter cfg \<ge> 0
      then (if \<not> S_ISREG (st_mode sb) \<or>
               (mtime_op cfg < 0 \<and> now e - st_mtime sb \<ge> mtime_filter cfg) \<or>
               (mtime_op cfg > 0 \<and> now e - st_mtime sb \<le> mtime_filter cfg)
            then False else is_match)
      else is_match)"

definition filter_extension :: "search_config \<Rightarrow> string \<Rightarrow> stat \<Rightarrow> bool \<Rightarrow> bool" where
  "filter_extension cfg d_name sb is_match =
     (case extension cfg of
        None \<Rightarrow> is_match
      | Some ext \<Rightarrow>
          (if is_match
           then (if \<not> S_ISREG (st_mode sb) \<or> \<not> ends_with d_name ext (ignore_case cfg)
                 then False else is_match)
           else is_match))"

definition filter_content ::
  "env \<Rightarrow> search_config \<Rightarrow> string \<Rightarrow> stat \<Rightarrow> bool \<Rightarrow> stream \<Rightarrow> bool \<times> stream" where
  "filter_content e cfg full_path sb is_match out =
     (if is_match \<and> compiled (content_regex cfg)
      then (if \<not> S_ISREG (st_mode sb) then (False, out)
            else (case search_file_content e cfg full_path out of
                    (rc, out') \<Rightarrow> (if rc \<noteq> 1 then False else is_match, out')))
      else (is_match, out))"

definition filter_owner :: "search_config \<Rightarrow> stat \<Rightarrow> bool \<Rightarrow> bool" where
  "filter_owner cfg sb is_match =
     (if is_match \<and> owner_filter_enabled cfg \<and> st_uid sb \<noteq> owner_filter cfg
      then False else is_match)"

definition filter_perms :: "search_config \<Rightarrow> stat \<Rightarrow> bool \<Rightarrow> bool" where
  "filter_perms cfg sb is_match =
     (if is_match \<and> perms_filter_enabled cfg \<and> st_mode sb AND 0x1FF \<noteq> perms_filter cfg
      then False else is_match)"

definition entry_filter ::
  "env \<Rightarrow> search_config \<Rightarrow> string \<Rightarrow> string \<Rightarrow> stat \<Rightarrow> stream \<Rightarrow> bool \<times> stream" where
  "entry_filter e cfg d_name full_path sb out =
     (let is_match = True;
          is_match = filter_type cfg sb is_match;
          is_match = filter_name cfg d_name is_match;
          is_match = filter_size cfg sb is_match;
          is_match = filter_mtime cfg e sb is_match;
          is_match = filter_extension cfg d_name sb is_match
      in case filter_content e cfg full_path sb is_match out of
           (is_match, out') \<Rightarrow>
             (let is_match = filter_owner cfg sb is_match;
                  is_match = filter_perms cfg sb is_match
              in (is_match, out')))"

subsection \<open>Reporting a match\<close>

definition C_RESET :: string where "C_RESET = ESC # ''[0m''"
definition C_FILE :: string where "C_FILE = []"
definition C_DIR :: string where "C_DIR = ESC # ''[1;34m''"
definition C_LINK :: string where "C_LINK = ESC # ''[1;36m''"
definition C_EXECUTABLE :: string where "C_EXECUTABLE = ESC # ''[1;32m''"
definition C_TYPE :: string where "C_TYPE = ESC # ''[90m''"

definition format_permissions :: "mode_t \<Rightarrow> string" where
  "format_permissions mode =
     [if S_ISLNK mode then CHR ''l'' else if S_ISDIR mode then CHR ''d'' else CHR ''-'',
      if mode AND 0x100 \<noteq> 0 then CHR ''r'' else CHR ''-'',
      if mode AND 0x80 \<noteq> 0 then CHR ''w'' else CHR ''-'',
      if mode AND 0x40 \<noteq> 0 then CHR ''x'' else CHR ''-'',
      if mode AND 0x20 \<noteq> 0 then CHR ''r'' else CHR ''-'',
      if mode AND 0x10 \<noteq> 0 then CHR ''w'' else CHR ''-'',
      if mode AND 0x8 \<noteq> 0 then CHR ''x'' else CHR ''-'',
      if mode AND 0x4 \<noteq> 0 then CHR ''r'' else CHR ''-'',
      if mode AND 0x2 \<noteq> 0 then CHR ''w'' else CHR ''-'',
      if mode AND 0x1 \<noteq> 0 then CHR ''x'' else CHR ''-'']"

definition print_long_listing :: "env \<Rightarrow> string \<Rightarrow> stat \<Rightarrow> stream \<Rightarrow> stream" where
  "print_long_listing e fpath sb out =
     fprintf out (format_permissions (st_mode sb) @ '' '' @ pad_left 4 (show_int (st_nlink sb))
                  @ '' '' @ pad_right 8 (show_int (wrap32 (int (st_uid sb))))
                  @ '' '' @ pad_right 8 (show_int (wrap32 (int (st_gid sb))))
                  @ '' '' @ pad_left 8 (show_int (st_size sb))
                  @ '' '' @ strftime e (st_mtime sb) @ '' '' @ fpath @ [NL])"

definition json_record :: "string \<Rightarrow> char \<Rightarrow> stat \<Rightarrow> string" where
  "json_record fpath type_char sb =
     ''{\"path\":\"'' @ fpath @ ''\",\"type\":\"'' @ [type_char] @ ''\",\"size\":''
     @ show_int (st_size sb) @ '',\"mtime\":'' @ show_int (st_mtime sb) @ ''}''"

definition print_result ::
  "env \<Rightarrow> search_config \<Rightarrow> string \<Rightarrow> char \<Rightarrow> stat \<Rightarrow> world \<Rightarrow> world" where
  "print_result e cfg fpath type_char sb w =
     (if long_listing cfg
      then w\<lparr>out_stream := print_long_listing e fpath sb (out_stream w)\<rparr>
      else if output_format cfg = ''json''
      then (let out = (if matches_found w > 1 then fprintf (out_stream w) ('','' @ [NL])
                       else out_stream w)
            in w\<lparr>out_stream := fprintf out (json_record fpath type_char sb)\<rparr>)
      else if output_format cfg = ''csv''
      then w\<lparr>out_stream := fprintf (out_stream w)
                 (''\"'' @ fpath @ ''\",'' @ [type_char] @ '','' @ show_int (st_size sb)
                  @ '','' @ show_int (st_mtime sb) @ [NL])\<rparr>
      else (let color = (if use_colors cfg
                         then (if type_char = CHR ''d'' then C_DIR
                               else if type_char = CHR ''l'' then C_LINK
                               else if st_mode sb AND S_IXUSR \<noteq> 0 then C_EXECUTABLE
                               else C_FILE)
                         else C_FILE)
            in w\<lparr>out_stream := fprintf (out_stream w)
                    (color @ fpath @ C_RESET @ '' '' @ C_TYPE @ ''['' @ [type_char] @ '']''
                     @ C_RESET @ [NL])\<rparr>))"

definition handle_match ::
  "env \<Rightarrow> search_config \<Rightarrow> string \<Rightarrow> char \<Rightarrow> stat \<Rightarrow> world \<Rightarrow> world" where
  "handle_match e cfg fpath type_char sb w =
     (if with_line_number cfg \<and> compiled (content_regex cfg) then w
      else (case exec_command cfg of
              Some cmd \<Rightarrow> w\<lparr>hooks := hooks w @ [Exec cmd fpath]\<rparr>
            | None \<Rightarrow>
                if delete_files cfg
                then w\<lparr>hooks := hooks w @ [Delete fpath type_char (interactive_delete cfg)]\<rparr>
                else print_result e cfg fpath type_char sb w))"

subsection \<open>The directory walker\<close>

text \<open>
  The block that forks a child task for a subdirectory: the child takes the local ignore
  set if there is one, else the inherited one; the set's count and the active-task
  counter are incremented before the submission and taken back when it fails.
\<close>

definition spawn_child :: "task \<Rightarrow> nat option \<Rightarrow> string \<Rightarrow> world \<Rightarrow> world" where
  "spawn_child t local_ignore full_path w =
     (let shared = (case local_ignore of
                      Some a \<Rightarrow> Some a
                    | None \<Rightarrow> parent_ignore t);
          new_task = \<lparr>path = full_path, current_depth = current_depth t + 1,
                      parent_ignore = shared\<rparr>;
          w1 = (case shared of Some a \<Rightarrow> refcount_add a w | None \<Rightarrow> w);
          w2 = w1\<lparr>active_tasks := active_tasks w1 + 1\<rparr>
      in case threadpool_add (pool w2) new_task of
           (rc, pool') \<Rightarrow>
             if rc \<noteq> 0
             then free_ignore_patterns (parent_ignore new_task)
                    (w2\<lparr>active_tasks := active_tasks w2 - 1\<rparr>)
             else w2\<lparr>pool := pool'\<rparr>)"

definition type_char_of :: "stat \<Rightarrow> char" where
  "type_char_of sb =
     (if S_ISDIR (st_mode sb) then CHR ''d''
      else if S_ISREG (st_mode sb) then CHR ''f'' else CHR ''l'')"

text \<open>One turn of the \<open>readdir\<close> loop, for the entry named \<open>d_name\<close>.\<close>

definition process_entry ::
  "env \<Rightarrow> search_config \<Rightarrow> task \<Rightarrow> nat option \<Rightarrow> string \<Rightarrow> world \<Rightarrow> world" where
  "process_entry e cfg t local_ignore d_name w =
     (if d_name = ''.'' \<or> d_name = ''..'' then w
      else (let full_path = full_path_of (path t) d_name
            in case lstat e full_path of
                 None \<Rightarrow> w
               | Some sb \<Rightarrow>
                   if no_hidden cfg \<and> d_name \<noteq> [] \<and> hd d_name = CHR ''.'' then w
                   else if d_name \<in> set (exclude_dirs cfg) then w
                   else if ignore_vcs cfg \<and>
                           (is_ignored e (heap w) d_name local_ignore \<or>
                            is_ignored e (heap w) d_name (parent_ignore t)) then w
                   else (case entry_filter e cfg d_name full_path sb (out_stream w) of
                           (is_match, out') \<Rightarrow>
                             (let w1 = w\<lparr>out_stream := out'\<rparr>;
                                  w2 = (if is_match
                                        then handle_match e cfg full_path (type_char_of sb) sb
                                               (w1\<lparr>files_scanned :=
                                                      (if S_ISREG (st_mode sb)
                                                       then files_scanned w1 + 1
                                                       else files_scanned w1),
                                                    matches_found := matches_found w1 + 1\<rparr>)
                                        else w1)
                              in if S_ISDIR (st_mode sb) \<and>
                                    (max_depth cfg = - 1 \<or> current_depth t < max_depth cfg)
                                 then spawn_child t local_ignore full_path w2
                                 else w2))))"

definition search_directory :: "env \<Rightarrow> search_config \<Rightarrow> task \<Rightarrow> world \<Rightarrow> world" where
  "search_directory e cfg t w =
     (let w' =
        (if max_depth cfg \<noteq> - 1 \<and> current_depth t > max_depth cfg then w
         else (let w1 = w\<lparr>dirs_scanned := dirs_scanned w + 1\<rparr>
               in case opendir e (path t) of
                    None \<Rightarrow> w1
                  | Some names \<Rightarrow>
                      (case (if ignore_vcs cfg then load_ignore_file e (path t) w1
                             else (None, w1)) of
                         (local_ignore, w2) \<Rightarrow>
                           free_ignore_patterns local_ignore
                             (foldl (\<lambda>w d_name. process_entry e cfg t local_ignore d_name w)
                                w2 names))))
      in w'\<lparr>active_tasks := active_tasks w' - 1\<rparr>)"

subsection \<open>The worker and the seeder\<close>

text \<open>
  The default configuration has one worker thread, which takes the queued tasks in
  order and runs each to its end. \<open>worker\<close> is that loop, with fuel; it returns the state
  in which the worker finds the queue empty and goes to sleep, \<open>None\<close> while tasks remain.
\<close>

fun worker :: "env \<Rightarrow> search_config \<Rightarrow> nat \<Rightarrow> world \<Rightarrow> world option" where
  "worker e cfg 0 w = (if count (pool w) = 0 then Some w else None)"
| "worker e cfg (Suc n) w =
     (case threadpool_take (pool w) of
        None \<Rightarrow> (if count (pool w) = 0 then Some w else None)
      | Some (t, pool') \<Rightarrow> worker e cfg n (search_directory e cfg t (w\<lparr>pool := pool'\<rparr>)))"

definition no_pool :: threadpool where
  "no_pool = \<lparr>queue = (\<lambda>_. None), thread_count = 0, queue_size = 0, head = 0, tail = 0,
              count = 0, shutdown = False\<rparr>"

definition init_world :: "stream \<Rightarrow> world" where
  "init_world out =
     \<lparr>pool = no_pool, heap = (\<lambda>_. None), next_addr = 0, active_tasks = 0,
      files_scanned = 0, dirs_scanned = 0, matches_found = 0, out_stream = out,
      err_stream = [], hooks = []\<rparr>"

text \<open>
  \<open>run_search\<close> is \<open>main\<close> from the creation of the pool on: the header of the output,
  the seed task, the wait for \<open>active_tasks\<close> to reach zero, the shutdown of the pool,
  the JSON footer and the statistics. The wait never ends when the worker sleeps while
  \<open>active_tasks\<close> is positive; that, like too little fuel, is \<open>None\<close>.
\<close>

definition json_footer :: "search_config \<Rightarrow> world \<Rightarrow> world" where
  "json_footer cfg w =
     (if output_format cfg = ''json''
      then (let out = (if matches_found w > 0
                       then fprintf (fseek_cur (out_stream w) (- 2)) [NL]
                       else out_stream w)
            in w\<lparr>out_stream := fprintf out ('']'' @ [NL])\<rparr>)
      else w)"

definition stats_line :: "env \<Rightarrow> world \<Rightarrow> string" where
  "stats_line e w =
     [NL] @ GREY @ ''Searched '' @ show_int (dirs_scanned w) @ '' directories and ''
     @ show_int (files_scanned w) @ '' files. Found '' @ show_int (matches_found w)
     @ '' matches in '' @ time_spent e @ '' seconds.'' @ RESET @ [NL]"

definition run_search ::
  "env \<Rightarrow> search_config \<Rightarrow> stream \<Rightarrow> nat \<Rightarrow> (int \<times> world) option" where
  "run_search e cfg out fuel =
     (case threadpool_create
             (if num_threads cfg > 0 then num_threads cfg else nprocessors e) 4096 of
        None \<Rightarrow>
          Some (1, (init_world out)
                 \<lparr>err_stream := log_error_with_hint ''Failed to create thread pool.'' None\<rparr>)
      | Some p \<Rightarrow>
          (let out1 = (if output_format cfg = ''json'' then fprintf out (''['' @ [NL]) else out);
               out2 = (if output_format cfg = ''csv''
                       then fprintf out1 (''path,type,size,mtime'' @ [NL]) else out1);
               initial_task = \<lparr>path = root_dir cfg, current_depth = 0, parent_ignore = None\<rparr>;
               w0 = (init_world out2)\<lparr>pool := p, active_tasks := 1\<rparr>;
               w1 = w0\<lparr>pool := snd (threadpool_add (pool w0) initial_task)\<rparr>
           in case worker e cfg fuel w1 of
                None \<Rightarrow> None
              | Some w2 \<Rightarrow>
                  if active_tasks w2 > 0 then None
                  else (let w3 = w2\<lparr>pool := threadpool_destroy (pool w2)\<rparr>;
                            w4 = json_footer cfg w3
                        in Some (0, w4\<lparr>err_stream := err_stream w4 @ stats_line e w4\<rparr>))))"

text \<open>
  \<open>fastfind_main\<close> is \<open>main\<close>: the options as \<open>getopt_long\<close> yields them, the optional
  positional argument, then the set-up checks in their order, then the search.
\<close>

definition initial_args :: parsed_args where
  "initial_args =
     \<lparr>config = init_search_config, name_pattern = None, content_pattern = None\<rparr>"

definition fastfind_main ::
  "env \<Rightarrow> option_t list \<Rightarrow> string option \<Rightarrow> nat \<Rightarrow> (int \<times> world) option" where
  "fastfind_main e opts positional fuel =
     (let stdout_stream = new_stream (stdout_seekable e)
      in case parse_options e opts initial_args of
           Inl (rc, msg) \<Rightarrow> Some (rc, (init_world stdout_stream)\<lparr>err_stream := msg\<rparr>)
         | Inr p \<Rightarrow>
             (let cfg1 = (case positional of
                            Some d \<Rightarrow> (config p)\<lparr>root_dir := d\<rparr>
                          | None \<Rightarrow> config p)
              in case name_pattern p of
                   None \<Rightarrow> Some (1, init_world stdout_stream)
                 | Some npat \<Rightarrow>
                     (let cfg2 = (if type_mask cfg1 = 0
                                  then cfg1\<lparr>type_mask := TYPE_FILE OR TYPE_DIR OR TYPE_LINK\<rparr>
                                  else cfg1);
                          cfg3 = (if \<not> stdout_isatty e \<or> output_file cfg2 \<noteq> None
                                  then cfg2\<lparr>use_colors := False\<rparr> else cfg2)
                      in case (case output_file cfg3 of
                                 None \<Rightarrow> Inr stdout_stream
                               | Some f \<Rightarrow>
                                   (case fopen_w e f of
                                      None \<Rightarrow>
                                        Inl (log_system_error
                                               (''Could not open file '' @ [CHR 0x27] @ f @ [CHR 0x27])
                                               (fopen_w_error e f))
                                    | Some sk \<Rightarrow> Inr (new_stream sk))) of
                           Inl msg \<Rightarrow> Some (1, (init_world stdout_stream)\<lparr>err_stream := msg\<rparr>)
                         | Inr out \<Rightarrow>
                             (case compile_regex e npat (ignore_case cfg3) of
                                Inl msg \<Rightarrow> Some (1, (init_world out)\<lparr>err_stream := msg\<rparr>)
                              | Inr nre \<Rightarrow>
                                  (case (case content_pattern p of
                                           None \<Rightarrow> Inr no_regex
                                         | Some cpat \<Rightarrow>
                                             compile_regex e cpat (ignore_case cfg3)) of
                                     Inl msg \<Rightarrow> Some (1, (init_world out)\<lparr>err_stream := msg\<rparr>)
                                   | Inr cre \<Rightarrow>
                                       run_search e
                                         (cfg3\<lparr>name_regex := nre, content_regex := cre\<rparr>)
                                         out fuel)))))"


section \<open>Concrete inputs\<close>

text \<open>
  Metadata of a directory (mode 0755), a regular file (mode 0644) and a symbolic link,
  and an environment with an empty file system in which every pattern compiles to the
  regex that accepts every text (as \<open>.*\<close> does) and a glob without metacharacters
  matches the equal name.
\<close>

definition dir_stat :: stat where
  "dir_stat = \<lparr>st_mode = 0x41ED, st_nlink = 2, st_uid = 1000, st_gid = 1000,
               st_size = 4096, st_mtime = 1700000000\<rparr>"

definition file_stat :: stat where
  "file_stat = \<lparr>st_mode = 0x81A4, st_nlink = 1, st_uid = 1000, st_gid = 1000,
                st_size = 0, st_mtime = 1700000000\<rparr>"

definition link_stat :: stat where
  "link_stat = \<lparr>st_mode = 0xA1FF, st_nlink = 1, st_uid = 1000, st_gid = 1000,
                st_size = 1, st_mtime = 1700000000\<rparr>"

definition any_regex :: Regex where
  "any_regex = \<lparr>compiled = True, regexec = (\<lambda>_. True)\<rparr>"

definition base_env :: env where
  "base_env =
     \<lparr>opendir = (\<lambda>_. None), lstat = (\<lambda>_. None), fopen = (\<lambda>_. None),
      fnmatch = (\<lambda>pattern name. pattern = name), now = 1700086400,
      strftime = (\<lambda>_. ''2023-11-14 22:13''), getpwnam = (\<lambda>_. None), geteuid = 1000,
      regcomp = (\<lambda>pattern icase. Some (\<lambda>_. True)), nprocessors = 4,
      stdout_isatty = False, stdout_seekable = False, fopen_w = (\<lambda>_. Some True),
      time_spent = ''0.00'', regerror = (\<lambda>pattern icase. ''Invalid regular expression''),
      fopen_w_error = (\<lambda>_. ''Permission denied'')\<rparr>"

text \<open>The configuration an option leaves behind, for stating results about it.\<close>

definition cfg_of :: "(int \<times> string) + parsed_args \<Rightarrow> search_config" where
  "cfg_of r = (case r of Inl _ \<Rightarrow> init_search_config | Inr p \<Rightarrow> config p)"

text \<open>A directory \<open>a\<close> holding a symbolic link \<open>a/link\<close> whose target is a directory.\<close>

definition link_env :: env where
  "link_env = base_env
     \<lparr>opendir := map_of [(''a'', [''.'', ''..'', ''link'']), (''a/link'', [''.'', ''..'', ''x''])],
      lstat := map_of [(''a/link'', link_stat), (''a/link/x'', file_stat)]\<rparr>"

definition link_task :: task where
  "link_task = \<lparr>path = ''a'', current_depth = 0, parent_ignore = None\<rparr>"

definition all_types_cfg :: search_config where
  "all_types_cfg = init_search_config\<lparr>name_regex := any_regex, type_mask := 7\<rparr>"

definition size_cfg :: search_config where
  "size_cfg = all_types_cfg\<lparr>size_filter := 0, size_op := 1\<rparr>"

text \<open>A name pattern that accepts the name \<open>x\<close> only.\<close>

definition only_x :: Regex where
  "only_x = \<lparr>compiled = True, regexec = (\<lambda>text. text = ''x'')\<rparr>"

section \<open>Properties of the entry filter\<close>

lemma stage_False:
  "filter_name cfg d False = False" "filter_size cfg sb False = False"
  "filter_mtime cfg e sb False = False" "filter_extension cfg d sb False = False"
  "filter_content e cfg fp sb False out = (False, out)"
  "filter_owner cfg sb False = False" "filter_perms cfg sb False = False"
  by (simp_all add: filter_name_def filter_size_def filter_mtime_def filter_extension_def
      filter_content_def filter_owner_def filter_perms_def split: option.split)

lemma stage_True:
  "filter_type cfg sb b = (b \<and> filter_type cfg sb True)"
  "filter_name cfg d b = (b \<and> filter_name cfg d True)"
  "filter_size cfg sb b = (b \<and> filter_size cfg sb True)"
  "filter_mtime cfg e sb b = (b \<and> filter_mtime cfg e sb True)"
  "filter_extension cfg d sb b = (b \<and> filter_extension cfg d sb True)"
  "filter_owner cfg sb b = (b \<and> filter_owner cfg sb True)"
  "filter_perms cfg sb b = (b \<and> filter_perms cfg sb True)"
  by (cases b; simp add: filter_type_def filter_name_def filter_size_def filter_mtime_def
        filter_extension_def filter_owner_def filter_perms_def split: option.split)+

lemma content_stage:
  "filter_content e cfg fp sb b out =
     (if b then filter_content e cfg fp sb True out else (False, out))"
  by (simp add: stage_False)

lemma early_stages:
  "filter_extension cfg d sb (filter_mtime cfg e sb (filter_size cfg sb
     (filter_name cfg d (filter_type cfg sb True)))) =
   (filter_type cfg sb True \<and> filter_name cfg d True \<and> filter_size cfg sb True \<and>
    filter_mtime cfg e sb True \<and> filter_extension cfg d sb True)"
  by (subst stage_True(5), subst stage_True(4), subst stage_True(3), subst stage_True(2)) auto

lemma entry_filter_unfold:
  "entry_filter e cfg d fp sb out =
     (case filter_content e cfg fp sb
             (filter_type cfg sb True \<and> filter_name cfg d True \<and> filter_size cfg sb True \<and>
              filter_mtime cfg e sb True \<and> filter_extension cfg d sb True) out of
        (m, out') \<Rightarrow> (filter_perms cfg sb (filter_owner cfg sb m), out'))"
  by (simp add: entry_filter_def early_stages)

lemma nonregular_stages:
  assumes "\<not> S_ISREG (st_mode sb)"
  shows "size_filter cfg \<ge> 0 \<Longrightarrow> \<not> filter_size cfg sb True"
    and "mtime_filter cfg \<ge> 0 \<Longrightarrow> \<not> filter_mtime cfg e sb True"
    and "extension cfg \<noteq> None \<Longrightarrow> \<not> filter_extension cfg d sb True"
    and "compiled (content_regex cfg) \<Longrightarrow> filter_content e cfg fp sb True out = (False, out)"
  using assms
  by (auto simp: filter_size_def filter_mtime_def filter_extension_def filter_content_def)

lemma filter_content_nonregular:
  "\<not> S_ISREG (st_mode sb) \<Longrightarrow> snd (filter_content e cfg fp sb b out) = out"
  by (simp add: filter_content_def)

lemma entry_filter_nonregular:
  "\<not> S_ISREG (st_mode sb) \<Longrightarrow> snd (entry_filter e cfg d fp sb out) = out"
  using filter_content_nonregular [of sb e cfg fp _ out]
  by (simp add: entry_filter_unfold split: prod.split) (metis snd_conv)

text \<open>
  What each stage tests, on a flag \<open>b\<close> that may already be false: the type of the entry
  against the type mask, the name against the name pattern, the size against the threshold
  under the comparator, the age against the threshold under the comparator, the name
  against the extension, the content against the content pattern, the owner against the
  user id, the permission bits against the mode.
\<close>

lemma stage_tests:
  "filter_type cfg sb b =
     (b \<and> ((S_ISDIR (st_mode sb) \<and> type_mask cfg AND TYPE_DIR \<noteq> 0) \<or>
            (S_ISREG (st_mode sb) \<and> type_mask cfg AND TYPE_FILE \<noteq> 0) \<or>
            (S_ISLNK (st_mode sb) \<and> type_mask cfg AND TYPE_LINK \<noteq> 0)))"
  "filter_name cfg d b = (b \<and> match_regex (name_regex cfg) d)"
  "filter_size cfg sb b =
     (b \<and> (size_filter cfg < 0 \<or>
            S_ISREG (st_mode sb) \<and>
            (if size_op cfg > 0 then size_filter cfg < st_size sb
             else if size_op cfg < 0 then st_size sb < size_filter cfg
             else st_size sb = size_filter cfg)))"
  "filter_mtime cfg e sb b =
     (b \<and> (mtime_filter cfg < 0 \<or>
            S_ISREG (st_mode sb) \<and>
            (if mtime_op cfg < 0 then now e - st_mtime sb < mtime_filter cfg
             else if mtime_op cfg > 0 then mtime_filter cfg < now e - st_mtime sb
             else True)))"
  "filter_extension cfg d sb b =
     (b \<and> (case extension cfg of
              None \<Rightarrow> True
            | Some ext \<Rightarrow> S_ISREG (st_mode sb) \<and> ends_with d ext (ignore_case cfg)))"
  "filter_owner cfg sb b = (b \<and> (owner_filter_enabled cfg \<longrightarrow> st_uid sb = owner_filter cfg))"
  "filter_perms cfg sb b =
     (b \<and> (perms_filter_enabled cfg \<longrightarrow> st_mode sb AND 0x1FF = perms_filter cfg))"
  by (auto simp: filter_type_def filter_name_def filter_size_def filter_mtime_def
        filter_extension_def filter_owner_def filter_perms_def split: option.split)

lemma content_test:
  "filter_content e cfg fp sb b out =
     (if b \<and> compiled (content_regex cfg) \<and> S_ISREG (st_mode sb)
      then (fst (search_file_content e cfg fp out) = 1, snd (search_file_content e cfg fp out))
      else (b \<and> \<not> compiled (content_regex cfg), out))"
  by (auto simp: filter_content_def split: prod.split)

text \<open>
  Claim C5. The decision of the filter is the conjunction of its eight predicates in the
  order type mask, name pattern, size, mtime, extension, content, owner, permissions, and
  each stage is the conjunction of the flag it receives with its test, spelled out below:
  once the flag is false no later stage does anything. The order shows in the one stage
  with an effect: the content scan runs, and writes to the stream, exactly when the five
  stages before it pass, whatever owner and permissions decide after it. On an entry that
  is not a regular file the size, mtime, extension and content stages fail whenever they
  are configured, and the content stage does not open the file.
\<close>

theorem entry_filter_order:
  "fst (entry_filter e cfg d_name full_path sb out) =
     (filter_type cfg sb True \<and> filter_name cfg d_name True \<and> filter_size cfg sb True \<and>
      filter_mtime cfg e sb True \<and> filter_extension cfg d_name sb True \<and>
      fst (filter_content e cfg full_path sb True out) \<and>
      filter_owner cfg sb True \<and> filter_perms cfg sb True) \<and>
   snd (entry_filter e cfg d_name full_path sb out) =
     (if filter_type cfg sb True \<and> filter_name cfg d_name True \<and> filter_size cfg sb True \<and>
         filter_mtime cfg e sb True \<and> filter_extension cfg d_name sb True
      then snd (filter_content e cfg full_path sb True out) else out) \<and>
   filter_type cfg sb b =
     (b \<and> ((S_ISDIR (st_mode sb) \<and> type_mask cfg AND TYPE_DIR \<noteq> 0) \<or>
            (S_ISREG (st_mode sb) \<and> type_mask cfg AND TYPE_FILE \<noteq> 0) \<or>
            (S_ISLNK (st_mode sb) \<and> type_mask cfg AND TYPE_LINK \<noteq> 0))) \<and>
   filter_name cfg d_name b = (b \<and> match_regex (name_regex cfg) d_name) \<and>
   filter_size cfg sb b =
     (b \<and> (size_filter cfg < 0 \<or>
            S_ISREG (st_mode sb) \<and>
            (if size_op cfg > 0 then size_filter cfg < st_size sb
             else if size_op cfg < 0 then st_size sb < size_filter cfg
             else st_size sb = size_filter cfg))) \<and>
   filter_mtime cfg e sb b =
     (b \<and> (mtime_filter cfg < 0 \<or>
            S_ISREG (st_mode sb) \<and>
            (if mtime_op cfg < 0 then now e - st_mtime sb < mtime_filter cfg
             else if mtime_op cfg > 0 then mtime_filter cfg < now e - st_mtime sb
             else True))) \<and>
   filter_extension cfg d_name sb b =
     (b \<and> (case extension cfg of
              None \<Rightarrow> True
            | Some ext \<Rightarrow> S_ISREG (st_mode sb) \<and> ends_with d_name ext (ignore_case cfg))) \<and>
   filter_content e cfg full_path sb b out =
     (if b \<and> compiled (content_regex cfg) \<and> S_ISREG (st_mode sb)
      then (fst (search_file_content e cfg full_path out) = 1,
            snd (search_file_content e cfg full_path out))
      else (b \<and> \<not> compiled (content_regex cfg), out)) \<and>
   filter_owner cfg sb b = (b \<and> (owner_filter_enabled cfg \<longrightarrow> st_uid sb = owner_filter cfg)) \<and>
   filter_perms cfg sb b =
     (b \<and> (perms_filter_enabled cfg \<longrightarrow> st_mode sb AND 0x1FF = perms_filter cfg)) \<and>
   (\<not> S_ISREG (st_mode sb) \<longrightarrow>
      (size_filter cfg \<ge> 0 \<longrightarrow> \<not> filter_size cfg sb True) \<and>
      (mtime_filter cfg \<ge> 0 \<longrightarrow> \<not> filter_mtime cfg e sb True) \<and>
      (extension cfg \<noteq> None \<longrightarrow> \<not> filter_extension cfg d_name sb True) \<and>
      (compiled (content_regex cfg) \<longrightarrow>
         filter_content e cfg full_path sb True out = (False, out)))"
proof -
  have d: "fst (entry_filter e cfg d_name full_path sb out) =
     (filter_type cfg sb True \<and> filter_name cfg d_name True \<and> filter_size cfg sb True \<and>
      filter_mtime cfg e sb True \<and> filter_extension cfg d_name sb True \<and>
      fst (filter_content e cfg full_path sb True out) \<and>
      filter_owner cfg sb True \<and> filter_perms cfg sb True)"
    unfolding entry_filter_unfold
    by (subst content_stage, subst stage_True(7), subst stage_True(6))
       (auto simp: stage_False split: prod.split)
  have s: "snd (entry_filter e cfg d_name full_path sb out) =
     (if filter_type cfg sb True \<and> filter_name cfg d_name True \<and> filter_size cfg sb True \<and>
         filter_mtime cfg e sb True \<and> filter_extension cfg d_name sb True
      then snd (filter_content e cfg full_path sb True out) else out)"
    unfolding entry_filter_unfold
    by (subst content_stage) (auto split: prod.split)
  have n: "\<not> S_ISREG (st_mode sb) \<longrightarrow>
      (size_filter cfg \<ge> 0 \<longrightarrow> \<not> filter_size cfg sb True) \<and>
      (mtime_filter cfg \<ge> 0 \<longrightarrow> \<not> filter_mtime cfg e sb True) \<and>
      (extension cfg \<noteq> None \<longrightarrow> \<not> filter_extension cfg d_name sb True) \<and>
      (compiled (content_regex cfg) \<longrightarrow>
         filter_content e cfg full_path sb True out = (False, out))"
    by (simp add: nonregular_stages)
  show ?thesis
    by (intro conjI d s n stage_tests content_test)
qed

lemma stat_kinds:
  "S_ISDIR (st_mode dir_stat)" "\<not> S_ISREG (st_mode dir_stat)" "\<not> S_ISLNK (st_mode dir_stat)"
  "\<not> S_ISDIR (st_mode file_stat)" "S_ISREG (st_mode file_stat)" "\<not> S_ISLNK (st_mode file_stat)"
  "\<not> S_ISDIR (st_mode link_stat)" "\<not> S_ISREG (st_mode link_stat)" "S_ISLNK (st_mode link_stat)"
  by (simp_all add: dir_stat_def file_stat_def link_stat_def S_ISDIR_def S_ISREG_def
        S_ISLNK_def S_IFMT_def S_IFDIR_def S_IFREG_def S_IFLNK_def)

lemma all_types_cfg_fields:
  "type_mask all_types_cfg = 7" "name_regex all_types_cfg = any_regex"
  "size_filter all_types_cfg = - 1" "mtime_filter all_types_cfg = - 1"
  "extension all_types_cfg = None" "\<not> compiled (content_regex all_types_cfg)"
  "\<not> owner_filter_enabled all_types_cfg" "\<not> perms_filter_enabled all_types_cfg"
  "no_hidden all_types_cfg" "exclude_dirs all_types_cfg = []" "ignore_vcs all_types_cfg"
  "exec_command all_types_cfg = None" "\<not> delete_files all_types_cfg"
  "\<not> with_line_number all_types_cfg" "\<not> long_listing all_types_cfg"
  "output_format all_types_cfg = ''text''" "use_colors all_types_cfg"
  by (simp_all add: all_types_cfg_def init_search_config_def no_regex_def)

theorem entry_filter_order_witness:
  "\<not> S_ISREG (st_mode dir_stat) \<and> size_filter size_cfg \<ge> 0 \<and>
   \<not> filter_size size_cfg dir_stat True \<and>
   \<not> fst (entry_filter base_env size_cfg ''b'' ''a/b'' dir_stat (new_stream False)) \<and>
   snd (entry_filter base_env size_cfg ''b'' ''a/b'' dir_stat (new_stream False)) = new_stream False \<and>
   fst (entry_filter base_env all_types_cfg ''f'' ''a/f'' file_stat (new_stream False)) \<and>
   \<not> fst (entry_filter base_env (all_types_cfg\<lparr>type_mask := TYPE_DIR\<rparr>) ''f'' ''a/f'' file_stat
            (new_stream False)) \<and>
   \<not> fst (entry_filter base_env (all_types_cfg\<lparr>name_regex := only_x\<rparr>) ''f'' ''a/f'' file_stat
            (new_stream False)) \<and>
   fst (entry_filter base_env (all_types_cfg\<lparr>name_regex := only_x\<rparr>) ''x'' ''a/x'' file_stat
          (new_stream False)) \<and>
   \<not> fst (entry_filter base_env (all_types_cfg\<lparr>owner_filter_enabled := True, owner_filter := 0\<rparr>)
            ''f'' ''a/f'' file_stat (new_stream False)) \<and>
   \<not> fst (entry_filter base_env (all_types_cfg\<lparr>perms_filter_enabled := True, perms_filter := 0x1ED\<rparr>)
            ''f'' ''a/f'' file_stat (new_stream False)) \<and>
   fst (entry_filter base_env (all_types_cfg\<lparr>perms_filter_enabled := True, perms_filter := 0x1A4\<rparr>)
          ''f'' ''a/f'' file_stat (new_stream False))"
proof -
  note a = entry_filter_order [of base_env size_cfg "''b''" "''a/b''" dir_stat "new_stream False" True]
  have t: "st_mode file_stat AND 0x1FF = 0x1A4" "st_uid file_stat = 1000"
    by (simp_all add: file_stat_def)
  have c: "type_mask all_types_cfg = 7" "name_regex all_types_cfg = any_regex"
    "size_filter all_types_cfg = - 1" "mtime_filter all_types_cfg = - 1"
    "extension all_types_cfg = None" "\<not> compiled (content_regex all_types_cfg)"
    "\<not> owner_filter_enabled all_types_cfg" "\<not> perms_filter_enabled all_types_cfg"
    by (simp_all add: all_types_cfg_def init_search_config_def no_regex_def)
  have r: "match_regex any_regex s" "match_regex only_x s = (s = ''x'')" for s
    by (simp_all add: match_regex_def any_regex_def only_x_def)
  have m: "(7::int) AND TYPE_FILE \<noteq> 0" "TYPE_DIR AND TYPE_FILE = 0"
    by (simp_all add: TYPE_FILE_def TYPE_DIR_def)
  have f: "fst (entry_filter base_env cfg d fp file_stat (new_stream False)) =
             (type_mask cfg AND TYPE_FILE \<noteq> 0 \<and> match_regex (name_regex cfg) d \<and>
              (owner_filter_enabled cfg \<longrightarrow> 1000 = owner_filter cfg) \<and>
              (perms_filter_enabled cfg \<longrightarrow> 0x1A4 = perms_filter cfg))"
    if "size_filter cfg = - 1" "mtime_filter cfg = - 1" "extension cfg = None"
      "\<not> compiled (content_regex cfg)" for cfg d fp
    using entry_filter_order [of base_env cfg d fp file_stat "new_stream False" True] that
    by (simp add: stat_kinds t)
  from a have "\<not> S_ISREG (st_mode dir_stat) \<and> size_filter size_cfg \<ge> 0 \<and>
     \<not> filter_size size_cfg dir_stat True \<and>
     \<not> fst (entry_filter base_env size_cfg ''b'' ''a/b'' dir_stat (new_stream False)) \<and>
     snd (entry_filter base_env size_cfg ''b'' ''a/b'' dir_stat (new_stream False)) = new_stream False"
    by (simp add: stat_kinds size_cfg_def all_types_cfg_def init_search_config_def)
  then show ?thesis
    by (simp add: f c r m)
qed



section \<open>The mtime filter\<close>

lemma op_prefix_cases:
  "arg \<noteq> [] \<Longrightarrow> hd arg = CHR ''+'' \<Longrightarrow> op_prefix arg = (1, tl arg)"
  "arg \<noteq> [] \<Longrightarrow> hd arg = CHR ''-'' \<Longrightarrow> op_prefix arg = (- 1, tl arg)"
  "arg = [] \<or> (hd arg \<noteq> CHR ''+'' \<and> hd arg \<noteq> CHR ''-'') \<Longrightarrow> op_prefix arg = (0, arg)"
  by (auto simp: op_prefix_def)

lemma apply_mtime_Inr:
  assumes "apply_option e0 (Opt_mtime arg) p = Inr p'"
  shows "mtime_op (config p') = fst (op_prefix arg)"
    and "mtime_filter (config p') = parse_time_string (snd (op_prefix arg))"
    and "0 \<le> mtime_filter (config p')"
  using assms by (auto simp: Let_def split: prod.splits if_splits)

text \<open>
  Claim C1, as amended. After \<open>--mtime\<close> with a \<open>+\<close> prefix a regular file passes the
  mtime stage iff its age \<open>now - st_mtime\<close> is greater than the threshold, and with a
  \<open>-\<close> prefix iff its age is less than the threshold; the threshold is the parsed rest
  of the argument. Age equal to the threshold passes neither.
\<close>

theorem mtime_comparators_strict:
  assumes "apply_option e0 (Opt_mtime arg) p = Inr p'" and "S_ISREG (st_mode sb)"
  shows "mtime_filter (config p') = parse_time_string (snd (op_prefix arg)) \<and>
         (arg \<noteq> [] \<and> hd arg = CHR ''+'' \<longrightarrow>
            filter_mtime (config p') e sb True =
              (mtime_filter (config p') < now e - st_mtime sb)) \<and>
         (arg \<noteq> [] \<and> hd arg = CHR ''-'' \<longrightarrow>
            filter_mtime (config p') e sb True =
              (now e - st_mtime sb < mtime_filter (config p')))"
proof -
  note f = apply_mtime_Inr [OF assms(1)]
  have plus: "filter_mtime (config p') e sb True =
                (mtime_filter (config p') < now e - st_mtime sb)"
    if "arg \<noteq> []" "hd arg = CHR ''+''"
    using that f assms(2) by (auto simp: filter_mtime_def op_prefix_cases)
  have minus: "filter_mtime (config p') e sb True =
                 (now e - st_mtime sb < mtime_filter (config p'))"
    if "arg \<noteq> []" "hd arg = CHR ''-''"
    using that f assms(2) by (auto simp: filter_mtime_def op_prefix_cases)
  from f(2) plus minus show ?thesis by blast
qed

lemma parse_time_1d: "parse_time_string ''1d'' = 86400"
  by (simp add: parse_time_string_def strtol_def strto_def isspace_def is_digit_def
        digit_val_def LLONG_MAX_def LLONG_MIN_def toupper_def wrap64_def Let_def)

lemma apply_mtime_plus_1d:
  "apply_option base_env (Opt_mtime ''+1d'') initial_args =
     Inr (initial_args\<lparr>config := (config initial_args)\<lparr>mtime_op := 1, mtime_filter := 86400\<rparr>\<rparr>)"
  by (simp add: op_prefix_def parse_time_1d)

lemma file_mtime: "st_mtime file_stat = 1700000000"
  by (simp add: file_stat_def)

lemma age_one_day: "now base_env - st_mtime file_stat = 86400"
  by (simp add: base_env_def file_stat_def)

theorem mtime_comparators_strict_witness:
  "S_ISREG (st_mode file_stat) \<and>
   mtime_filter (cfg_of (apply_option base_env (Opt_mtime ''+1d'') initial_args)) = 86400 \<and>
   filter_mtime (cfg_of (apply_option base_env (Opt_mtime ''+1d'') initial_args))
     (base_env\<lparr>now := 1700086401\<rparr>) file_stat True"
  using mtime_comparators_strict [OF apply_mtime_plus_1d stat_kinds(5),
          of "base_env\<lparr>now := 1700086401\<rparr>"]
  unfolding apply_mtime_plus_1d cfg_of_def
  by (simp add: stat_kinds file_mtime)

text \<open>
  Claim C1 as stated fails: with \<open>--mtime +1d\<close> a regular file whose age is exactly the
  threshold of 86400 seconds is at least that old, and the mtime stage rejects it.
\<close>

theorem mtime_older_than_rejects_equal_age:
  "S_ISREG (st_mode file_stat) \<and>
   mtime_op (cfg_of (apply_option base_env (Opt_mtime ''+1d'') initial_args)) = 1 \<and>
   mtime_filter (cfg_of (apply_option base_env (Opt_mtime ''+1d'') initial_args))
     \<le> now base_env - st_mtime file_stat \<and>
   \<not> filter_mtime (cfg_of (apply_option base_env (Opt_mtime ''+1d'') initial_args))
       base_env file_stat True"
  unfolding apply_mtime_plus_1d cfg_of_def
  by (simp add: stat_kinds age_one_day filter_mtime_def)

section \<open>Symbolic links\<close>

lemma link_is_no_dir: "S_ISLNK m \<Longrightarrow> \<not> S_ISDIR m \<and> \<not> S_ISREG m"
  by (simp add: S_ISDIR_def S_ISREG_def S_ISLNK_def S_IFMT_def S_IFDIR_def S_IFREG_def
        S_IFLNK_def)

lemma handle_match_keeps:
  "pool (handle_match e cfg fp c sb w) = pool w"
  "heap (handle_match e cfg fp c sb w) = heap w"
  "active_tasks (handle_match e cfg fp c sb w) = active_tasks w"
  "next_addr (handle_match e cfg fp c sb w) = next_addr w"
  "err_stream (handle_match e cfg fp c sb w) = err_stream w"
  "matches_found (handle_match e cfg fp c sb w) = matches_found w"
  "files_scanned (handle_match e cfg fp c sb w) = files_scanned w"
  "dirs_scanned (handle_match e cfg fp c sb w) = dirs_scanned w"
  by (simp_all add: handle_match_def print_result_def Let_def split: option.split)

text \<open>
  Claim C3. For an entry that \<open>lstat\<close> reports as a symbolic link, one turn of the
  directory loop leaves the pool, the active-task counter and the heap of ignore sets
  as they were: no child task is built or queued, whatever \<open>opendir\<close> would say of the
  link's path. The turn changes nothing when the entry is \<open>.\<close> or \<open>..\<close>, hidden,
  excluded, ignored or rejected by the filter; otherwise it counts one match and hands the
  entry to the match handler with the type tag \<open>l\<close>, which prints the record of a link
  unless a command, a deletion or line numbers are asked for. The filter accepts a link
  iff the type mask has the link bit, the name matches, no size, mtime, extension or
  content filter is configured, and owner and permissions agree.
\<close>

theorem symlink_no_child_task:
  assumes "lstat e (full_path_of (path t) d_name) = Some sb" and "S_ISLNK (st_mode sb)"
  shows "pool (process_entry e cfg t local_ignore d_name w) = pool w \<and>
         active_tasks (process_entry e cfg t local_ignore d_name w) = active_tasks w \<and>
         heap (process_entry e cfg t local_ignore d_name w) = heap w \<and>
         process_entry e cfg t local_ignore d_name w =
           (if d_name = ''.'' \<or> d_name = ''..'' \<or>
               (no_hidden cfg \<and> d_name \<noteq> [] \<and> hd d_name = CHR ''.'') \<or>
               d_name \<in> set (exclude_dirs cfg) \<or>
               (ignore_vcs cfg \<and>
                (is_ignored e (heap w) d_name local_ignore \<or>
                 is_ignored e (heap w) d_name (parent_ignore t))) \<or>
               \<not> (type_mask cfg AND TYPE_LINK \<noteq> 0 \<and> match_regex (name_regex cfg) d_name \<and>
                  size_filter cfg < 0 \<and> mtime_filter cfg < 0 \<and> extension cfg = None \<and>
                  \<not> compiled (content_regex cfg) \<and>
                  (owner_filter_enabled cfg \<longrightarrow> st_uid sb = owner_filter cfg) \<and>
                  (perms_filter_enabled cfg \<longrightarrow> st_mode sb AND 0x1FF = perms_filter cfg))
            then w
            else handle_match e cfg (full_path_of (path t) d_name) CHR ''l'' sb
                   (w\<lparr>matches_found := matches_found w + 1\<rparr>)) \<and>
         (exec_command cfg = None \<and> \<not> delete_files cfg \<and> \<not> with_line_number cfg \<longrightarrow>
            handle_match e cfg (full_path_of (path t) d_name) CHR ''l'' sb
              (w\<lparr>matches_found := matches_found w + 1\<rparr>) =
            print_result e cfg (full_path_of (path t) d_name) CHR ''l'' sb
              (w\<lparr>matches_found := matches_found w + 1\<rparr>))"
proof -
  let ?fp = "full_path_of (path t) d_name"
  from assms(2) have nd: "\<not> S_ISDIR (st_mode sb)" and nr: "\<not> S_ISREG (st_mode sb)"
    using link_is_no_dir by blast+
  have sn: "snd (entry_filter e cfg d_name ?fp sb (out_stream w)) = out_stream w"
    by (rule entry_filter_nonregular [OF nr])
  have fs: "fst (entry_filter e cfg d_name ?fp sb (out_stream w)) =
              (type_mask cfg AND TYPE_LINK \<noteq> 0 \<and> match_regex (name_regex cfg) d_name \<and>
               size_filter cfg < 0 \<and> mtime_filter cfg < 0 \<and> extension cfg = None \<and>
               \<not> compiled (content_regex cfg) \<and>
               (owner_filter_enabled cfg \<longrightarrow> st_uid sb = owner_filter cfg) \<and>
               (perms_filter_enabled cfg \<longrightarrow> st_mode sb AND 0x1FF = perms_filter cfg))"
    unfolding entry_filter_unfold content_test
    using nd nr assms(2) by (auto simp: stage_tests split: option.splits)
  have ef: "entry_filter e cfg d_name ?fp sb (out_stream w) =
              (fst (entry_filter e cfg d_name ?fp sb (out_stream w)), out_stream w)"
    using sn by (metis prod.collapse)
  have pe: "process_entry e cfg t local_ignore d_name w =
           (if d_name = ''.'' \<or> d_name = ''..'' \<or>
               (no_hidden cfg \<and> d_name \<noteq> [] \<and> hd d_name = CHR ''.'') \<or>
               d_name \<in> set (exclude_dirs cfg) \<or>
               (ignore_vcs cfg \<and>
                (is_ignored e (heap w) d_name local_ignore \<or>
                 is_ignored e (heap w) d_name (parent_ignore t))) \<or>
               \<not> fst (entry_filter e cfg d_name ?fp sb (out_stream w))
            then w
            else handle_match e cfg ?fp CHR ''l'' sb (w\<lparr>matches_found := matches_found w + 1\<rparr>))"
    unfolding process_entry_def Let_def assms(1) option.case
    by (subst ef) (use nd nr in \<open>auto simp: type_char_of_def\<close>)
  have k: "pool (process_entry e cfg t local_ignore d_name w) = pool w \<and>
           active_tasks (process_entry e cfg t local_ignore d_name w) = active_tasks w \<and>
           heap (process_entry e cfg t local_ignore d_name w) = heap w"
    unfolding pe by (simp add: handle_match_keeps)
  have h: "exec_command cfg = None \<and> \<not> delete_files cfg \<and> \<not> with_line_number cfg \<longrightarrow>
            handle_match e cfg ?fp CHR ''l'' sb (w\<lparr>matches_found := matches_found w + 1\<rparr>) =
            print_result e cfg ?fp CHR ''l'' sb (w\<lparr>matches_found := matches_found w + 1\<rparr>)"
    by (simp add: handle_match_def)
  from k pe [unfolded fs] h show ?thesis
    by (intro conjI) simp_all
qed

lemma link_env_fields:
  "lstat link_env ''a/link'' = Some link_stat"
  "opendir link_env ''a/link'' = Some [''.'', ''..'', ''x'']"
  by (simp_all add: link_env_def base_env_def)

lemma full_path_link: "full_path_of (path link_task) ''link'' = ''a/link''"
  by (simp add: full_path_of_def link_task_def PATH_MAX_def)

theorem symlink_no_child_task_witness:
  "lstat link_env ''a/link'' = Some link_stat \<and> S_ISLNK (st_mode link_stat) \<and>
   opendir link_env ''a/link'' = Some [''.'', ''..'', ''x''] \<and>
   pool (process_entry link_env all_types_cfg link_task None ''link'' (init_world (new_stream False)))
     = pool (init_world (new_stream False)) \<and>
   active_tasks (process_entry link_env all_types_cfg link_task None ''link''
                   (init_world (new_stream False))) = 0 \<and>
   matches_found (process_entry link_env all_types_cfg link_task None ''link''
                    (init_world (new_stream False))) = 1 \<and>
   data (out_stream (process_entry link_env all_types_cfg link_task None ''link''
                       (init_world (new_stream False)))) =
     C_LINK @ ''a/link'' @ C_RESET @ '' '' @ C_TYPE @ ''[l]'' @ C_RESET @ [NL] \<and>
   process_entry link_env (all_types_cfg\<lparr>size_filter := 0\<rparr>) link_task None ''link''
     (init_world (new_stream False)) = init_world (new_stream False)"
proof -
  have i: "is_ignored link_env hp d None = False" for hp d
    by (simp add: is_ignored_def)
  have m: "(7::int) AND TYPE_LINK \<noteq> 0" "match_regex any_regex x" for x
    by (simp_all add: TYPE_LINK_def match_regex_def any_regex_def)
  have p: "parent_ignore link_task = None"
    by (simp add: link_task_def)
  have l: "lstat link_env (full_path_of (path link_task) ''link'') = Some link_stat"
    by (simp add: full_path_link link_env_fields)
  note a = symlink_no_child_task [OF l stat_kinds(9), of _ None "init_world (new_stream False)",
                     unfolded full_path_link i p]
  have a1: "process_entry link_env all_types_cfg link_task None ''link''
              (init_world (new_stream False)) =
            print_result link_env all_types_cfg ''a/link'' CHR ''l'' link_stat
              ((init_world (new_stream False))\<lparr>matches_found := 1\<rparr>)"
    using a [of all_types_cfg] by (simp add: all_types_cfg_fields m init_world_def)
  have a2: "process_entry link_env (all_types_cfg\<lparr>size_filter := 0\<rparr>) link_task None ''link''
              (init_world (new_stream False)) = init_world (new_stream False)"
    using a [of "all_types_cfg\<lparr>size_filter := 0\<rparr>"] by simp
  show ?thesis
    unfolding a1 a2
    by (simp add: link_env_fields stat_kinds print_result_def all_types_cfg_fields init_world_def
          new_stream_def fprintf_def Let_def)
qed



section \<open>The size argument\<close>

text \<open>The value of a string of decimal digits, most significant digit first.\<close>

definition decimal_value :: "string \<Rightarrow> int" where
  "decimal_value ds = foldl (\<lambda>a d. a * 10 + digit_val d) 0 ds"

definition op_of_prefix :: "string \<Rightarrow> int" where
  "op_of_prefix pre = (if pre = ''+'' then 1 else if pre = ''-'' then - 1 else 0)"

definition size_error :: "int \<times> string" where
  "size_error = (1, log_error_with_hint ''Invalid size format.'' (Some ''Use N, NK, NM, NG.''))"

lemma digit_not_space_sign:
  assumes "is_digit 10 c"
  shows "\<not> isspace c" and "c \<noteq> CHR ''-''" and "c \<noteq> CHR ''+''" and "c \<noteq> NUL"
  using assms by (auto simp: is_digit_def isspace_def Let_def)

lemma decimal_value_nonneg: "\<forall>c\<in>set ds. is_digit 10 c \<Longrightarrow> 0 \<le> decimal_value ds"
proof -
  have "\<forall>c\<in>set ds. is_digit 10 c \<Longrightarrow> 0 \<le> a \<Longrightarrow>
        0 \<le> foldl (\<lambda>a d. a * 10 + digit_val d) a ds" for a
    by (induction ds arbitrary: a) (auto simp: is_digit_def digit_val_def Let_def)
  then show "\<forall>c\<in>set ds. is_digit 10 c \<Longrightarrow> 0 \<le> decimal_value ds"
    by (simp add: decimal_value_def)
qed

lemma takeWhile_digits:
  assumes "\<forall>c\<in>set ds. is_digit 10 c" and "r = [] \<or> \<not> is_digit 10 (hd r)"
  shows "takeWhile (is_digit 10) (ds @ r) = ds"
proof -
  from assms(2) have "takeWhile (is_digit 10) r = []"
    by (cases r) auto
  with assms(1) show ?thesis
    by (simp add: takeWhile_append2)
qed

lemma strto_digits:
  assumes "ds \<noteq> []" and "\<forall>c\<in>set ds. is_digit 10 c" and "r = [] \<or> \<not> is_digit 10 (hd r)"
  shows "strto 10 lo hi (ds @ r) = (max lo (min hi (decimal_value ds)), r)"
proof -
  from assms(1,2) have d: "is_digit 10 (hd ds)" by (cases ds) auto
  have ne: "ds @ r \<noteq> []" and h: "hd (ds @ r) = hd ds"
    using assms(1) by auto
  have s1: "dropWhile isspace (ds @ r) = ds @ r"
    using ne h digit_not_space_sign(1) [OF d] by (cases "ds @ r") auto
  show ?thesis
    using assms(1) digit_not_space_sign [OF d] takeWhile_digits [OF assms(2,3)]
    by (simp add: strto_def s1 h decimal_value_def Let_def)
qed

lemma strto_no_number:
  assumes "s = [] \<or> (\<not> is_digit 10 (hd s) \<and> \<not> isspace (hd s) \<and>
                      hd s \<noteq> CHR ''+'' \<and> hd s \<noteq> CHR ''-'')"
  shows "strto 10 lo hi s = (0, s)"
proof (cases s)
  case Nil
  then show ?thesis by (simp add: strto_def)
next
  case (Cons c cs)
  with assms show ?thesis by (simp add: strto_def)
qed

lemma toupper_suffix:
  "toupper c = CHR ''K'' \<longleftrightarrow> c = CHR ''K'' \<or> c = CHR ''k''"
  "toupper c = CHR ''M'' \<longleftrightarrow> c = CHR ''M'' \<or> c = CHR ''m''"
  "toupper c = CHR ''G'' \<longleftrightarrow> c = CHR ''G'' \<or> c = CHR ''g''"
  "toupper c = NUL \<longleftrightarrow> c = NUL"
  by (auto simp: toupper_def split: if_splits)

lemma wrap64_id: "- (2 ^ 63) \<le> x \<Longrightarrow> x < 2 ^ 63 \<Longrightarrow> wrap64 x = x"
  by (simp add: wrap64_def signed_take_bit_int_eq_self)

lemma clamp_id: "0 \<le> x \<Longrightarrow> x < 2 ^ 63 \<Longrightarrow> max LLONG_MIN (min LLONG_MAX x) = x"
  by (simp add: LLONG_MIN_def LLONG_MAX_def)

lemma parse_size_plain:
  assumes "ds \<noteq> []" and "\<forall>c\<in>set ds. is_digit 10 c" and "decimal_value ds < 2 ^ 63"
  shows "parse_size_string ds = decimal_value ds"
  using strto_digits [OF assms(1,2), of "[]" LLONG_MIN LLONG_MAX] assms(1,3)
    decimal_value_nonneg [OF assms(2)]
  by (simp add: parse_size_string_def strtoll_def clamp_id)

lemma parse_size_suffix:
  assumes "ds \<noteq> []" and "\<forall>c\<in>set ds. is_digit 10 c" and "\<not> is_digit 10 c"
  shows "parse_size_string (ds @ c # rest) =
           (let sz = max LLONG_MIN (min LLONG_MAX (decimal_value ds))
            in if toupper c = CHR ''G'' then wrap64 (wrap64 (wrap64 (sz * 1024) * 1024) * 1024)
               else if toupper c = CHR ''M'' then wrap64 (wrap64 (sz * 1024) * 1024)
               else if toupper c = CHR ''K'' then wrap64 (sz * 1024)
               else if toupper c = NUL then sz
               else - 1)"
  using strto_digits [OF assms(1,2), of "c # rest" LLONG_MIN LLONG_MAX] assms(1,3)
  by (simp add: parse_size_string_def strtoll_def Let_def)

lemma parse_size_K:
  assumes "ds \<noteq> []" and "\<forall>c\<in>set ds. is_digit 10 c" and "c = CHR ''K'' \<or> c = CHR ''k''"
    and "decimal_value ds * 1024 < 2 ^ 63"
  shows "parse_size_string (ds @ c # rest) = decimal_value ds * 1024"
proof -
  have nd: "\<not> is_digit 10 c" using assms(3) by (auto simp: is_digit_def)
  have nn: "0 \<le> decimal_value ds" by (rule decimal_value_nonneg [OF assms(2)])
  with assms(4) have b: "decimal_value ds < 2 ^ 63" by simp
  have tu: "toupper c = CHR ''K''" "toupper c \<noteq> CHR ''G''" "toupper c \<noteq> CHR ''M''"
    using assms(3) by (auto simp: toupper_suffix)
  show ?thesis
    using assms(4) nn
    by (simp add: parse_size_suffix [OF assms(1,2) nd] clamp_id [OF nn b] tu wrap64_id Let_def)
qed

lemma parse_size_M:
  assumes "ds \<noteq> []" and "\<forall>c\<in>set ds. is_digit 10 c" and "c = CHR ''M'' \<or> c = CHR ''m''"
    and "decimal_value ds * 1024 ^ 2 < 2 ^ 63"
  shows "parse_size_string (ds @ c # rest) = decimal_value ds * 1024 ^ 2"
proof -
  have nd: "\<not> is_digit 10 c" using assms(3) by (auto simp: is_digit_def)
  have nn: "0 \<le> decimal_value ds" by (rule decimal_value_nonneg [OF assms(2)])
  with assms(4) have b: "decimal_value ds < 2 ^ 63" and b1: "decimal_value ds * 1024 < 2 ^ 63"
    by simp_all
  have tu: "toupper c = CHR ''M''" "toupper c \<noteq> CHR ''G''"
    using assms(3) by (auto simp: toupper_suffix)
  show ?thesis
    using assms(4) nn b1
    by (simp add: parse_size_suffix [OF assms(1,2) nd] clamp_id [OF nn b] tu wrap64_id Let_def)
qed

lemma parse_size_G:
  assumes "ds \<noteq> []" and "\<forall>c\<in>set ds. is_digit 10 c" and "c = CHR ''G'' \<or> c = CHR ''g''"
    and "decimal_value ds * 1024 ^ 3 < 2 ^ 63"
  shows "parse_size_string (ds @ c # rest) = decimal_value ds * 1024 ^ 3"
proof -
  have nd: "\<not> is_digit 10 c" using assms(3) by (auto simp: is_digit_def)
  have nn: "0 \<le> decimal_value ds" by (rule decimal_value_nonneg [OF assms(2)])
  with assms(4) have b: "decimal_value ds < 2 ^ 63" and b1: "decimal_value ds * 1024 < 2 ^ 63"
    and b2: "decimal_value ds * 1024 * 1024 < 2 ^ 63"
    by simp_all
  have tu: "toupper c = CHR ''G''"
    using assms(3) by (auto simp: toupper_suffix)
  show ?thesis
    using assms(4) nn b1 b2
    by (simp add: parse_size_suffix [OF assms(1,2) nd] clamp_id [OF nn b] tu wrap64_id Let_def)
qed

lemma parse_size_bad_suffix:
  assumes "ds \<noteq> []" and "\<forall>c\<in>set ds. is_digit 10 c" and "\<not> is_digit 10 c"
    and "c \<notin> {CHR ''K'', CHR ''k'', CHR ''M'', CHR ''m'', CHR ''G'', CHR ''g'', NUL}"
  shows "parse_size_string (ds @ c # rest) = - 1"
  using assms(4) by (simp add: parse_size_suffix [OF assms(1,2,3)] toupper_suffix Let_def)

lemma parse_size_no_number:
  assumes "s = [] \<or> (\<not> is_digit 10 (hd s) \<and> \<not> isspace (hd s) \<and>
                      hd s \<noteq> CHR ''+'' \<and> hd s \<noteq> CHR ''-'')"
  shows "parse_size_string s = - 1"
  using strto_no_number [OF assms] by (simp add: parse_size_string_def strtoll_def)

lemma op_prefix_pre:
  assumes "pre \<in> {[], ''+'', ''-''}" and "s = [] \<or> (hd s \<noteq> CHR ''+'' \<and> hd s \<noteq> CHR ''-'')"
  shows "op_prefix (pre @ s) = (op_of_prefix pre, s)"
  using assms by (auto simp: op_prefix_def op_of_prefix_def)

lemma apply_size:
  "apply_option e (Opt_size (pre @ s)) p =
     (case op_prefix (pre @ s) of (op, rest) \<Rightarrow>
        if parse_size_string rest < 0 then Inl size_error
        else Inr (p\<lparr>config := (config p)\<lparr>size_op := op,
                                            size_filter := parse_size_string rest\<rparr>\<rparr>))"
  by (simp add: size_error_def Let_def split: prod.split)

lemma parse_options_append:
  "parse_options e xs p = Inr p' \<Longrightarrow>
   parse_options e (xs @ ys) p = parse_options e ys p'"
  by (induction xs arbitrary: p) (auto split: sum.splits)

lemma main_setup_error:
  assumes "parse_options e xs initial_args = Inr p" and "apply_option e x p = Inl (rc, msg)"
  shows "fastfind_main e (xs @ x # ys) positional fuel =
           Some (rc, (init_world (new_stream (stdout_seekable e)))\<lparr>err_stream := msg\<rparr>)"
  using parse_options_append [OF assms(1), of "x # ys"] assms(2)
  by (simp add: fastfind_main_def)


text \<open>The exit code of a run, when it returns.\<close>

definition exit_code :: "(int \<times> world) option \<Rightarrow> int option" where
  "exit_code r = map_option fst r"

text \<open>
  Claim C9, as amended. The argument of \<open>--size\<close> is an optional \<open>+\<close> or \<open>-\<close>, a
  decimal number and an optional suffix letter \<open>K\<close>, \<open>M\<close> or \<open>G\<close> in either case;
  there is no suffix \<open>B\<close>. Without a suffix the threshold is the number, with \<open>K\<close>,
  \<open>M\<close>, \<open>G\<close> it is the number times 1024, 1024 * 1024, 1024 * 1024 * 1024 (as long as that fits
  into 64 bits); what follows the suffix letter is not looked at. A number followed by
  any other character, and an argument with no number at its start, is rejected: the
  option loop returns exit code 1 with the message on standard error, and \<open>main\<close>
  returns it with nothing scanned and nothing written to the output.
\<close>

theorem size_argument_format:
  assumes "ds \<noteq> []" and "\<forall>c\<in>set ds. is_digit 10 c" and "pre \<in> {[], ''+'', ''-''}"
  shows
    "(decimal_value ds < 2 ^ 63 \<longrightarrow>
        apply_option e (Opt_size (pre @ ds)) p =
          Inr (p\<lparr>config := (config p)\<lparr>size_op := op_of_prefix pre,
                                         size_filter := decimal_value ds\<rparr>\<rparr>)) \<and>
     ((c = CHR ''K'' \<or> c = CHR ''k'') \<and> decimal_value ds * 1024 < 2 ^ 63 \<longrightarrow>
        apply_option e (Opt_size (pre @ ds @ c # rest)) p =
          Inr (p\<lparr>config := (config p)\<lparr>size_op := op_of_prefix pre,
                                         size_filter := decimal_value ds * 1024\<rparr>\<rparr>)) \<and>
     ((c = CHR ''M'' \<or> c = CHR ''m'') \<and> decimal_value ds * 1024 ^ 2 < 2 ^ 63 \<longrightarrow>
        apply_option e (Opt_size (pre @ ds @ c # rest)) p =
          Inr (p\<lparr>config := (config p)\<lparr>size_op := op_of_prefix pre,
                                         size_filter := decimal_value ds * 1024 ^ 2\<rparr>\<rparr>)) \<and>
     ((c = CHR ''G'' \<or> c = CHR ''g'') \<and> decimal_value ds * 1024 ^ 3 < 2 ^ 63 \<longrightarrow>
        apply_option e (Opt_size (pre @ ds @ c # rest)) p =
          Inr (p\<lparr>config := (config p)\<lparr>size_op := op_of_prefix pre,
                                         size_filter := decimal_value ds * 1024 ^ 3\<rparr>\<rparr>)) \<and>
     (\<not> is_digit 10 c \<and>
      c \<notin> {CHR ''K'', CHR ''k'', CHR ''M'', CHR ''m'', CHR ''G'', CHR ''g'', NUL} \<longrightarrow>
        apply_option e (Opt_size (pre @ ds @ c # rest)) p = Inl size_error) \<and>
     (s = [] \<or> (\<not> is_digit 10 (hd s) \<and> \<not> isspace (hd s) \<and>
                 hd s \<noteq> CHR ''+'' \<and> hd s \<noteq> CHR ''-'') \<longrightarrow>
        apply_option e (Opt_size (pre @ s)) p = Inl size_error) \<and>
     (parse_options e xs initial_args = Inr p \<and> apply_option e (Opt_size a) p = Inl size_error \<longrightarrow>
        fastfind_main e (xs @ Opt_size a # ys) positional fuel =
          Some (1, (init_world (new_stream (stdout_seekable e)))\<lparr>err_stream := snd size_error\<rparr>))"
proof -
  from assms(1,2) have d: "is_digit 10 (hd ds)" by (cases ds) auto
  have hd_ok: "hd (ds @ r) \<noteq> CHR ''+'' \<and> hd (ds @ r) \<noteq> CHR ''-''" for r
    using assms(1) digit_not_space_sign [OF d] by simp
  have pre_ds: "op_prefix (pre @ ds @ r) = (op_of_prefix pre, ds @ r)" for r
    using op_prefix_pre [OF assms(3), of "ds @ r"] hd_ok [of r] by simp
  have nn: "0 \<le> decimal_value ds" by (rule decimal_value_nonneg [OF assms(2)])
  have plain: "apply_option e (Opt_size (pre @ ds)) p =
          Inr (p\<lparr>config := (config p)\<lparr>size_op := op_of_prefix pre,
                                         size_filter := decimal_value ds\<rparr>\<rparr>)"
    if "decimal_value ds < 2 ^ 63"
    using pre_ds [of "[]"] parse_size_plain [OF assms(1,2) that] nn
    by (simp add: apply_size del: apply_option.simps)
  have scaled: "apply_option e (Opt_size (pre @ ds @ c # rest)) p =
          Inr (p\<lparr>config := (config p)\<lparr>size_op := op_of_prefix pre, size_filter := v\<rparr>\<rparr>)"
    if "parse_size_string (ds @ c # rest) = v" "0 \<le> v" for v
    using pre_ds [of "c # rest"] that
    by (simp add: apply_size [of e pre "ds @ c # rest"] del: apply_option.simps)
  have k: "apply_option e (Opt_size (pre @ ds @ c # rest)) p =
          Inr (p\<lparr>config := (config p)\<lparr>size_op := op_of_prefix pre,
                                         size_filter := decimal_value ds * 1024\<rparr>\<rparr>)"
    if "c = CHR ''K'' \<or> c = CHR ''k''" "decimal_value ds * 1024 < 2 ^ 63"
    using scaled [OF parse_size_K [OF assms(1,2) that]] nn by simp
  have m: "apply_option e (Opt_size (pre @ ds @ c # rest)) p =
          Inr (p\<lparr>config := (config p)\<lparr>size_op := op_of_prefix pre,
                                         size_filter := decimal_value ds * 1024 ^ 2\<rparr>\<rparr>)"
    if "c = CHR ''M'' \<or> c = CHR ''m''" "decimal_value ds * 1024 ^ 2 < 2 ^ 63"
    using scaled [OF parse_size_M [OF assms(1,2) that]] nn by simp
  have g: "apply_option e (Opt_size (pre @ ds @ c # rest)) p =
          Inr (p\<lparr>config := (config p)\<lparr>size_op := op_of_prefix pre,
                                         size_filter := decimal_value ds * 1024 ^ 3\<rparr>\<rparr>)"
    if "c = CHR ''G'' \<or> c = CHR ''g''" "decimal_value ds * 1024 ^ 3 < 2 ^ 63"
    using scaled [OF parse_size_G [OF assms(1,2) that]] nn by simp
  have bad: "apply_option e (Opt_size (pre @ ds @ c # rest)) p = Inl size_error"
    if "\<not> is_digit 10 c"
       "c \<notin> {CHR ''K'', CHR ''k'', CHR ''M'', CHR ''m'', CHR ''G'', CHR ''g'', NUL}"
    using pre_ds [of "c # rest"] parse_size_bad_suffix [OF assms(1,2) that]
    by (simp add: apply_size [of e pre "ds @ c # rest"] del: apply_option.simps)
  have none: "apply_option e (Opt_size (pre @ s)) p = Inl size_error"
    if "s = [] \<or> (\<not> is_digit 10 (hd s) \<and> \<not> isspace (hd s) \<and>
                   hd s \<noteq> CHR ''+'' \<and> hd s \<noteq> CHR ''-'')"
  proof -
    from that have "s = [] \<or> (hd s \<noteq> CHR ''+'' \<and> hd s \<noteq> CHR ''-'')" by blast
    from op_prefix_pre [OF assms(3) this] parse_size_no_number [OF that]
    show ?thesis by (simp add: apply_size del: apply_option.simps)
  qed
  have exit1: "fastfind_main e (xs @ Opt_size a # ys) positional fuel =
          Some (1, (init_world (new_stream (stdout_seekable e)))\<lparr>err_stream := snd size_error\<rparr>)"
    if "parse_options e xs initial_args = Inr p" "apply_option e (Opt_size a) p = Inl size_error"
    using main_setup_error [OF that(1), of "Opt_size a" 1 "snd size_error"] that(2)
    by (simp add: size_error_def)
  show ?thesis
    by (intro conjI impI; (elim conjE)?; rule plain k m g bad none exit1; assumption)
qed

lemma decimal_10: "decimal_value ''10'' = 10"
  by (simp add: decimal_value_def digit_val_def)

lemma digits_10: "\<forall>c\<in>set ''10''. is_digit 10 c"
  by (simp add: is_digit_def)

theorem size_argument_format_witness:
  "''10'' \<noteq> [] \<and> is_digit 10 CHR ''1'' \<and> is_digit 10 CHR ''0'' \<and>
   ''+'' \<in> {[], ''+'', ''-''} \<and>
   apply_option base_env (Opt_size ''+10K'') initial_args =
     Inr (initial_args\<lparr>config := (config initial_args)\<lparr>size_op := 1, size_filter := 10240\<rparr>\<rparr>) \<and>
   apply_option base_env (Opt_size ''+10B'') initial_args = Inl size_error \<and>
   exit_code (fastfind_main base_env [Opt_pattern ''x'', Opt_size ''+10B''] None 0) = Some 1"
proof -
  have a: "''10'' \<noteq> []" by simp
  have c: "''+'' \<in> {[], ''+'', ''-''}" by simp
  have po: "parse_options base_env [Opt_pattern ''x''] initial_args =
              Inr (initial_args\<lparr>name_pattern := Some ''x''\<rparr>)"
    by simp
  note k = size_argument_format [OF a digits_10 c, where c = "CHR ''K''" and rest = "[]"
             and e = base_env and p = initial_args]
  note b = size_argument_format [OF a digits_10 c, where c = "CHR ''B''" and rest = "[]"
             and e = base_env and p = "initial_args\<lparr>name_pattern := Some ''x''\<rparr>"
             and xs = "[Opt_pattern ''x'']" and a = "''+10B''" and ys = "[]"
             and positional = None and fuel = 0]
  note b0 = size_argument_format [OF a digits_10 c, where c = "CHR ''B''" and rest = "[]"
             and e = base_env and p = initial_args]
  have k': "apply_option base_env (Opt_size ''+10K'') initial_args =
     Inr (initial_args\<lparr>config := (config initial_args)\<lparr>size_op := 1, size_filter := 10240\<rparr>\<rparr>)"
    using k by (simp add: decimal_10 op_of_prefix_def del: apply_option.simps)
  have b0': "apply_option base_env (Opt_size ''+10B'') initial_args = Inl size_error"
    using b0 by (simp add: is_digit_def del: apply_option.simps)
  have b1: "apply_option base_env (Opt_size ''+10B'') (initial_args\<lparr>name_pattern := Some ''x''\<rparr>)
              = Inl size_error"
    using b by (simp add: is_digit_def del: apply_option.simps)
  have b': "exit_code (fastfind_main base_env [Opt_pattern ''x'', Opt_size ''+10B''] None 0) = Some 1"
    using b po b1 by (simp add: exit_code_def del: apply_option.simps parse_options.simps)
  have d: "is_digit 10 CHR ''1''" "is_digit 10 CHR ''0''"
    using digits_10 by simp_all
  show ?thesis
    by (intro conjI a d c k' b0' b')
qed

text \<open>
  Claim C9 as stated fails: the suffix \<open>B\<close> is not accepted. \<open>--size 10B\<close> is a set-up
  error and the program exits with code 1.
\<close>

theorem size_suffix_B_rejected:
  "apply_option base_env (Opt_size ''10B'') initial_args = Inl size_error \<and>
   exit_code (fastfind_main base_env [Opt_pattern ''x'', Opt_size ''10B''] None 0) = Some 1"
proof -
  have p: "parse_size_string ''10B'' = - 1"
    by (simp add: parse_size_string_def strtoll_def strto_def isspace_def is_digit_def
          digit_val_def LLONG_MAX_def LLONG_MIN_def toupper_def wrap64_def Let_def)
  have o: "op_prefix ''10B'' = (0, ''10B'')"
    by (simp add: op_prefix_def)
  have a: "apply_option base_env (Opt_size ''10B'') q = Inl size_error" for q
    using apply_size [of base_env "[]" "''10B''" q] p o by (simp del: apply_option.simps)
  have po: "parse_options base_env [Opt_pattern ''x''] initial_args =
              Inr (initial_args\<lparr>name_pattern := Some ''x''\<rparr>)"
    by simp
  have "exit_code (fastfind_main base_env ([Opt_pattern ''x''] @ Opt_size ''10B'' # []) None 0) = Some 1"
    unfolding main_setup_error [OF po a [unfolded size_error_def]]
    by (simp add: exit_code_def)
  with a show ?thesis by simp
qed



section \<open>Walks over concrete trees\<close>

text \<open>The exit code of a run and what it has written to its output, when it returns.\<close>

definition outcome :: "(int \<times> world) option \<Rightarrow> (int \<times> string) option" where
  "outcome r = map_option (\<lambda>x. (fst x, data (out_stream (snd x)))) r"

text \<open>A record of the text format without colours.\<close>

definition text_record :: "string \<Rightarrow> char \<Rightarrow> string" where
  "text_record fpath type_char =
     fpath @ C_RESET @ '' '' @ C_TYPE @ ''['' @ [type_char] @ '']'' @ C_RESET @ [NL]"

text \<open>The tree \<open>a/b/c.txt\<close>, \<open>a/b/d.log\<close>, \<open>a/e.txt\<close>.\<close>

definition tree_env :: env where
  "tree_env = base_env
     \<lparr>opendir := map_of [(''a'', [''.'', ''..'', ''b'', ''e.txt'']),
                         (''a/b'', [''.'', ''..'', ''c.txt'', ''d.log''])],
      lstat := map_of [(''a/b'', dir_stat), (''a/e.txt'', file_stat),
                       (''a/b/c.txt'', file_stat), (''a/b/d.log'', file_stat)]\<rparr>"

definition depth_cfg :: "int \<Rightarrow> search_config" where
  "depth_cfg d = init_search_config
     \<lparr>root_dir := ''a'', max_depth := d, type_mask := 7, use_colors := False,
      name_regex := any_regex\<rparr>"

lemma atoi_0_1: "atoi ''0'' = 0" "atoi ''1'' = 1"
  by (simp_all add: atoi_def strtol_def strto_def isspace_def is_digit_def digit_val_def
        LLONG_MIN_def LLONG_MAX_def wrap32_def Let_def)

lemma base_env_fields:
  "regcomp base_env pat icase = Some (\<lambda>_. True)" "\<not> stdout_isatty base_env"
  "\<not> stdout_seekable base_env" "nprocessors base_env = 4" "fopen base_env = (\<lambda>_. None)"
  "fnmatch base_env = (\<lambda>pattern name. pattern = name)" "fopen_w base_env f = Some True"
  "time_spent base_env = ''0.00''" "now base_env = 1700086400"
  by (simp_all add: base_env_def)

lemma tree_env_fields:
  "opendir tree_env = map_of [(''a'', [''.'', ''..'', ''b'', ''e.txt'']),
                              (''a/b'', [''.'', ''..'', ''c.txt'', ''d.log''])]"
  "lstat tree_env = map_of [(''a/b'', dir_stat), (''a/e.txt'', file_stat),
                            (''a/b/c.txt'', file_stat), (''a/b/d.log'', file_stat)]"
  "regcomp tree_env pat icase = Some (\<lambda>_. True)" "\<not> stdout_isatty tree_env"
  "\<not> stdout_seekable tree_env" "nprocessors tree_env = 4" "fopen tree_env = (\<lambda>_. None)"
  "fnmatch tree_env = (\<lambda>pattern name. pattern = name)"
  "time_spent tree_env = ''0.00''" "now tree_env = 1700086400"
  by (simp_all add: tree_env_def base_env_def)

lemma depth_cfg_fields:
  "root_dir (depth_cfg d) = ''a''" "max_depth (depth_cfg d) = d" "type_mask (depth_cfg d) = 7"
  "\<not> use_colors (depth_cfg d)" "name_regex (depth_cfg d) = any_regex"
  "size_filter (depth_cfg d) = - 1" "mtime_filter (depth_cfg d) = - 1"
  "extension (depth_cfg d) = None" "content_regex (depth_cfg d) = no_regex"
  "\<not> owner_filter_enabled (depth_cfg d)" "\<not> perms_filter_enabled (depth_cfg d)"
  "exclude_dirs (depth_cfg d) = []" "ignore_vcs (depth_cfg d)" "no_hidden (depth_cfg d)"
  "exec_command (depth_cfg d) = None" "\<not> delete_files (depth_cfg d)"
  "\<not> long_listing (depth_cfg d)" "\<not> with_line_number (depth_cfg d)"
  "output_format (depth_cfg d) = ''text''" "num_threads (depth_cfg d) = 1"
  by (simp_all add: depth_cfg_def init_search_config_def)

lemma main_depth:
  "fastfind_main tree_env [Opt_pattern ''.*'', Opt_directory ''a'', Opt_max_depth ''1''] None fuel
     = run_search tree_env (depth_cfg 1) (new_stream False) fuel"
  "fastfind_main tree_env [Opt_pattern ''.*'', Opt_directory ''a'', Opt_max_depth ''0''] None fuel
     = run_search tree_env (depth_cfg 0) (new_stream False) fuel"
  by (simp_all add: fastfind_main_def initial_args_def atoi_0_1 tree_env_fields compile_regex_def
        depth_cfg_def init_search_config_def any_regex_def TYPE_FILE_def TYPE_DIR_def
        TYPE_LINK_def)

lemma plain_filter:
  assumes "size_filter cfg < 0" "mtime_filter cfg < 0" "extension cfg = None"
    "\<not> compiled (content_regex cfg)" "\<not> owner_filter_enabled cfg" "\<not> perms_filter_enabled cfg"
    "name_regex cfg = any_regex" "type_mask cfg = 7"
  shows "entry_filter e cfg d fp sb out =
           (S_ISDIR (st_mode sb) \<or> S_ISREG (st_mode sb) \<or> S_ISLNK (st_mode sb), out)"
  using assms
  by (simp add: entry_filter_def filter_type_def filter_name_def filter_size_def filter_mtime_def
        filter_extension_def filter_content_def filter_owner_def filter_perms_def
        match_regex_def any_regex_def TYPE_FILE_def TYPE_DIR_def TYPE_LINK_def)

text \<open>A stream that has only been appended to: its position is its end.\<close>

definition appended :: "bool \<Rightarrow> string \<Rightarrow> stream" where
  "appended sk d = \<lparr>data = d, pos = length d, seekable = sk\<rparr>"

lemma appended_simps:
  "new_stream sk = appended sk []"
  "fprintf (appended sk d) s = appended sk (d @ s)"
  "data (appended sk d) = d"
  "seekable (appended sk d) = sk"
  by (simp_all add: appended_def new_stream_def fprintf_def)

lemmas walk_defs =
  run_search_def search_directory_def process_entry_def load_ignore_file_def
  full_path_of_def PATH_MAX_def is_ignored_def handle_match_def print_result_def
  type_char_of_def spawn_child_def refcount_add_def free_ignore_patterns_def
  threadpool_add_def threadpool_take_def threadpool_create_def threadpool_destroy_def
  init_world_def appended_simps json_footer_def no_regex_def
  stat_kinds Let_def


lemma run_depth_1:
  "outcome (run_search tree_env (depth_cfg 1) (new_stream False) (Suc (Suc 0))) =
     Some (0, text_record ''a/b'' CHR ''d'' @ text_record ''a/e.txt'' CHR ''f'' @
           text_record ''a/b/c.txt'' CHR ''f'' @ text_record ''a/b/d.log'' CHR ''f'')"
  by (simp add: outcome_def walk_defs tree_env_fields depth_cfg_fields plain_filter
        text_record_def C_FILE_def)

lemma run_depth_0:
  "outcome (run_search tree_env (depth_cfg 0) (new_stream False) (Suc 0)) =
     Some (0, text_record ''a/b'' CHR ''d'' @ text_record ''a/e.txt'' CHR ''f'')"
  by (simp add: outcome_def walk_defs tree_env_fields depth_cfg_fields plain_filter
        text_record_def C_FILE_def)

text \<open>
  Claim C2, as amended. On the tree \<open>a/b/c.txt\<close>, \<open>a/b/d.log\<close>, \<open>a/e.txt\<close> with the
  name pattern \<open>.*\<close> and the starting directory \<open>a\<close>, the walk with \<open>--max-depth 0\<close>
  writes exactly the records of \<open>a/b\<close> and \<open>a/e.txt\<close>; the walk with
  \<open>--max-depth 1\<close> also enumerates \<open>a/b\<close>, the directory at depth 1, and writes the
  records of \<open>a/b\<close>, \<open>a/e.txt\<close>, \<open>a/b/c.txt\<close> and \<open>a/b/d.log\<close>. Both return 0.
\<close>

theorem max_depth_scenario:
  "outcome (fastfind_main tree_env
              [Opt_pattern ''.*'', Opt_directory ''a'', Opt_max_depth ''0''] None 1) =
     Some (0, text_record ''a/b'' CHR ''d'' @ text_record ''a/e.txt'' CHR ''f'') \<and>
   outcome (fastfind_main tree_env
              [Opt_pattern ''.*'', Opt_directory ''a'', Opt_max_depth ''1''] None 2) =
     Some (0, text_record ''a/b'' CHR ''d'' @ text_record ''a/e.txt'' CHR ''f'' @
           text_record ''a/b/c.txt'' CHR ''f'' @ text_record ''a/b/d.log'' CHR ''f'')"
  unfolding main_depth numeral_2_eq_2 One_nat_def
  using run_depth_0 run_depth_1 by simp

theorem max_depth_scenario_witness:
  "outcome (fastfind_main tree_env
              [Opt_pattern ''.*'', Opt_directory ''a'', Opt_max_depth ''0''] None 1) \<noteq>
   outcome (fastfind_main tree_env
              [Opt_pattern ''.*'', Opt_directory ''a'', Opt_max_depth ''1''] None 2)"
  using max_depth_scenario by (simp add: text_record_def)

text \<open>
  Claim C2 as stated fails: with \<open>--max-depth 1\<close> the output is not the two records of
  \<open>a/b\<close> and \<open>a/e.txt\<close>; the record of \<open>a/b/c.txt\<close> is written as well.
\<close>

theorem max_depth_1_lists_grandchildren:
  "outcome (fastfind_main tree_env
              [Opt_pattern ''.*'', Opt_directory ''a'', Opt_max_depth ''1''] None 2) \<noteq>
     Some (0, text_record ''a/b'' CHR ''d'' @ text_record ''a/e.txt'' CHR ''f'') \<and>
   outcome (fastfind_main tree_env
              [Opt_pattern ''.*'', Opt_directory ''a'', Opt_max_depth ''1''] None 2) =
     Some (0, (text_record ''a/b'' CHR ''d'' @ text_record ''a/e.txt'' CHR ''f'') @
           text_record ''a/b/c.txt'' CHR ''f'' @ text_record ''a/b/d.log'' CHR ''f'')"
  unfolding main_depth numeral_2_eq_2
  using run_depth_1 by (simp add: text_record_def)



section \<open>JSON output\<close>

text \<open>A directory \<open>a\<close> holding the one regular file \<open>a/e.txt\<close>.\<close>

definition one_file_env :: env where
  "one_file_env = base_env
     \<lparr>opendir := map_of [(''a'', [''.'', ''..'', ''e.txt''])],
      lstat := map_of [(''a/e.txt'', file_stat)]\<rparr>"

definition json_cfg :: "string option \<Rightarrow> search_config" where
  "json_cfg file = init_search_config
     \<lparr>root_dir := ''a'', type_mask := 7, use_colors := False, name_regex := any_regex,
      output_format := ''json'', output_file := file\<rparr>"

lemma one_file_env_fields:
  "opendir one_file_env = map_of [(''a'', [''.'', ''..'', ''e.txt''])]"
  "lstat one_file_env = map_of [(''a/e.txt'', file_stat)]"
  "regcomp one_file_env pat icase = Some (\<lambda>_. True)" "\<not> stdout_isatty one_file_env"
  "\<not> stdout_seekable one_file_env" "nprocessors one_file_env = 4"
  "fopen one_file_env = (\<lambda>_. None)" "fopen_w one_file_env f = Some True"
  "fnmatch one_file_env = (\<lambda>pattern name. pattern = name)"
  "time_spent one_file_env = ''0.00''" "now one_file_env = 1700086400"
  by (simp_all add: one_file_env_def base_env_def)

lemma json_cfg_fields:
  "root_dir (json_cfg f) = ''a''" "max_depth (json_cfg f) = - 1" "type_mask (json_cfg f) = 7"
  "\<not> use_colors (json_cfg f)" "name_regex (json_cfg f) = any_regex"
  "size_filter (json_cfg f) = - 1" "mtime_filter (json_cfg f) = - 1"
  "extension (json_cfg f) = None" "content_regex (json_cfg f) = no_regex"
  "\<not> owner_filter_enabled (json_cfg f)" "\<not> perms_filter_enabled (json_cfg f)"
  "exclude_dirs (json_cfg f) = []" "ignore_vcs (json_cfg f)" "no_hidden (json_cfg f)"
  "exec_command (json_cfg f) = None" "\<not> delete_files (json_cfg f)"
  "\<not> long_listing (json_cfg f)" "\<not> with_line_number (json_cfg f)"
  "output_format (json_cfg f) = ''json''" "num_threads (json_cfg f) = 1"
  by (simp_all add: json_cfg_def init_search_config_def)

lemma main_json:
  "fastfind_main one_file_env
     [Opt_pattern ''.*'', Opt_directory ''a'', Opt_format ''json'', Opt_output ''out.json'']
     None fuel
   = run_search one_file_env (json_cfg (Some ''out.json'')) (new_stream True) fuel"
  "fastfind_main one_file_env
     [Opt_pattern ''.*'', Opt_directory ''a'', Opt_format ''json''] None fuel
   = run_search one_file_env (json_cfg None) (new_stream False) fuel"
  by (simp_all add: fastfind_main_def initial_args_def one_file_env_fields compile_regex_def
        json_cfg_def init_search_config_def any_regex_def TYPE_FILE_def TYPE_DIR_def
        TYPE_LINK_def)

text \<open>
  The footer after at least one match: on a stream that can seek, the newline and the
  bracket go over the last two bytes written; on one that cannot, they follow them.
\<close>

lemma footer_seekable:
  assumes "2 \<le> length d"
  shows "fprintf (fprintf (fseek_cur (appended True d) (- 2)) [NL]) [CHR '']'', NL] =
           appended True (butlast (butlast d) @ [NL, CHR '']'', NL])"
proof -
  from assms have "d \<noteq> []" by auto
  then obtain ys b where 1: "d = ys @ [b]"
    using rev_exhaust by blast
  with assms have "ys \<noteq> []" by auto
  then obtain d' a where 2: "ys = d' @ [a]"
    using rev_exhaust by blast
  show ?thesis
    unfolding 1 2 by (simp add: fseek_cur_def appended_def fprintf_def butlast_append)
qed

lemma footer_not_seekable:
  "fprintf (fprintf (fseek_cur (appended False d) (- 2)) [NL]) [CHR '']'', NL] =
     appended False (d @ [NL, CHR '']'', NL])"
  by (simp add: fseek_cur_def appended_def fprintf_def)

lemma show_file_stat:
  "show_int (st_mtime file_stat) = ''1700000000''" "show_int (st_size file_stat) = ''0''"
  by (simp_all add: show_int_def show_nat.simps file_stat_def)

lemma run_json_file:
  "outcome (run_search one_file_env (json_cfg (Some ''out.json'')) (new_stream True) (Suc 0)) =
     Some (0, ''['' @ [NL] @
              ''{\"path\":\"a/e.txt\",\"type\":\"f\",\"size\":0,\"mtime\":170000000'' @ [NL] @
              '']'' @ [NL])"
  by (simp add: outcome_def walk_defs one_file_env_fields json_cfg_fields plain_filter
        json_record_def show_file_stat footer_seekable)

lemma run_json_pipe:
  "outcome (run_search one_file_env (json_cfg None) (new_stream False) (Suc 0)) =
     Some (0, ''['' @ [NL] @
              ''{\"path\":\"a/e.txt\",\"type\":\"f\",\"size\":0,\"mtime\":1700000000}'' @ [NL] @
              '']'' @ [NL])"
  by (simp add: outcome_def walk_defs one_file_env_fields json_cfg_fields plain_filter
        json_record_def show_file_stat footer_not_seekable)

text \<open>
  Claim C7, evaluated. With \<open>--format json -o out.json\<close> and the single match
  \<open>a/e.txt\<close> the seeder seeks two bytes back before it writes the newline and the
  closing bracket: they overwrite the last digit of the record's \<open>mtime\<close> and its
  closing brace, and the file is not a JSON array. On standard output that cannot seek
  the same run writes the array intact.
\<close>

theorem json_footer_overwrites_last_record:
  "outcome (fastfind_main one_file_env
              [Opt_pattern ''.*'', Opt_directory ''a'', Opt_format ''json'', Opt_output ''out.json'']
              None 1) =
     Some (0, ''['' @ [NL] @
              ''{\"path\":\"a/e.txt\",\"type\":\"f\",\"size\":0,\"mtime\":170000000'' @ [NL] @
              '']'' @ [NL]) \<and>
   outcome (fastfind_main one_file_env
              [Opt_pattern ''.*'', Opt_directory ''a'', Opt_format ''json''] None 1) =
     Some (0, ''['' @ [NL] @
              ''{\"path\":\"a/e.txt\",\"type\":\"f\",\"size\":0,\"mtime\":1700000000}'' @ [NL] @
              '']'' @ [NL])"
  unfolding main_json One_nat_def
  using run_json_file run_json_pipe by simp



theorem json_footer_overwrites_last_record_witness:
  "outcome (fastfind_main one_file_env
              [Opt_pattern ''.*'', Opt_directory ''a'', Opt_format ''json'', Opt_output ''out.json'']
              None 1) \<noteq>
   outcome (fastfind_main one_file_env
              [Opt_pattern ''.*'', Opt_directory ''a'', Opt_format ''json''] None 1)"
  using json_footer_overwrites_last_record by simp

section \<open>Ignore sets over concrete trees\<close>

text \<open>What is left at an address of the heap of ignore sets when a run returns.\<close>

definition leftover :: "(int \<times> world) option \<Rightarrow> nat \<Rightarrow> ignore_patterns option" where
  "leftover r a = (case r of None \<Rightarrow> None | Some x \<Rightarrow> heap (snd x) a)"

text \<open>
  A directory \<open>a\<close> with an ignore file holding the pattern \<open>x\<close> and an empty
  subdirectory \<open>a/b\<close>.
\<close>

definition ign_env :: env where
  "ign_env = base_env
     \<lparr>opendir := map_of [(''a'', [''.'', ''..'', ''.gitignore'', ''b'']), (''a/b'', [''.'', ''..''])],
      lstat := map_of [(''a/.gitignore'', file_stat), (''a/b'', dir_stat)],
      fopen := map_of [(''a/.gitignore'', ''x'' @ [NL])]\<rparr>"


lemma ign_env_fields:
  "opendir ign_env = map_of [(''a'', [''.'', ''..'', ''.gitignore'', ''b'']), (''a/b'', [''.'', ''..''])]"
  "lstat ign_env = map_of [(''a/.gitignore'', file_stat), (''a/b'', dir_stat)]"
  "fopen ign_env = map_of [(''a/.gitignore'', ''x'' @ [NL])]"
  "regcomp ign_env pat icase = Some (\<lambda>_. True)" "\<not> stdout_isatty ign_env"
  "\<not> stdout_seekable ign_env" "nprocessors ign_env = 4"
  "fnmatch ign_env = (\<lambda>pattern name. pattern = name)"
  "time_spent ign_env = ''0.00''" "now ign_env = 1700086400"
  by (simp_all add: ign_env_def base_env_def)


lemma main_default:
  assumes "regcomp e pat False = Some (\<lambda>_. True)" "\<not> stdout_isatty e" "\<not> stdout_seekable e"
  shows "fastfind_main e [Opt_pattern pat, Opt_directory ''a''] None fuel =
           run_search e (depth_cfg (- 1)) (new_stream False) fuel"
  using assms
  by (simp add: fastfind_main_def initial_args_def compile_regex_def depth_cfg_def
        init_search_config_def any_regex_def TYPE_FILE_def TYPE_DIR_def TYPE_LINK_def)

lemma chunks_small:
  "file_chunks 1024 [] = []"
  "file_chunks 1024 [CHR ''x'', NL] = [[CHR ''x'', NL]]"
  "file_chunks 1024 [CHR ''x'', CHR ''.'', CHR ''t'', CHR ''x'', CHR ''t'', NL] =
     [[CHR ''x'', CHR ''.'', CHR ''t'', CHR ''x'', CHR ''t'', NL]]"
  by (subst file_chunks.simps, simp add: fgets_def, (subst file_chunks.simps, simp add: fgets_def)?)+

lemma run_ign:
  "exit_code (run_search ign_env (depth_cfg (- 1)) (new_stream False) (Suc (Suc 0))) = Some 0"
  "leftover (run_search ign_env (depth_cfg (- 1)) (new_stream False) (Suc (Suc 0))) 0 =
     Some \<lparr>patterns = [''x''], refcount = 1\<rparr>"
  by (simp_all add: exit_code_def leftover_def walk_defs ign_env_fields depth_cfg_fields
        plain_filter chunks_small c_str_def rstrip_def isspace_def)


text \<open>
  Claim C6, evaluated. The walk over \<open>a\<close> loads the ignore set of \<open>a\<close> with count 1,
  raises it to 2 for the child task of \<open>a/b\<close> and lowers it to 1 when \<open>a\<close> is done.
  The child task ends without releasing its reference: when the program returns with
  exit code 0 the set is still allocated with count 1.
\<close>

theorem ignore_set_refcount_leak:
  "exit_code (fastfind_main ign_env [Opt_pattern ''.*'', Opt_directory ''a''] None 2) = Some 0 \<and>
   leftover (fastfind_main ign_env [Opt_pattern ''.*'', Opt_directory ''a''] None 2) 0 =
     Some \<lparr>patterns = [''x''], refcount = 1\<rparr>"
  unfolding main_default [of ign_env, OF ign_env_fields(4,5,6)] numeral_2_eq_2
  using run_ign by simp

theorem ignore_set_refcount_leak_witness:
  "leftover (fastfind_main ign_env [Opt_pattern ''.*'', Opt_directory ''a''] None 2) 0 \<noteq> None"
  using ignore_set_refcount_leak by simp




section \<open>Content search with line numbers\<close>

text \<open>
  A text file given by its lines, each ended by a newline, and the records that the
  content search is to write for them: one for each line that the regex accepts, with
  the number of the line, counted from \<open>k\<close>. The regex sees a line as \<open>fgets\<close>
  delivers it, the newline included.
\<close>

definition file_of_lines :: "string list \<Rightarrow> string" where
  "file_of_lines ls = concat (map (\<lambda>l. l @ [NL]) ls)"

fun line_records :: "Regex \<Rightarrow> string \<Rightarrow> string list \<Rightarrow> int \<Rightarrow> string list" where
  "line_records re fpath [] k = []"
| "line_records re fpath (l # ls) k =
     (if match_regex re (l @ [NL]) then [fpath @ '':'' @ show_int k @ '':'' @ l @ [NL]] else [])
     @ line_records re fpath ls (k + 1)"

text \<open>A file whose first line has 4095 bytes, one more than fits into the buffer with its newline.\<close>

definition long_line :: string where
  "long_line = replicate 4095 CHR ''a''"

definition long_env :: env where
  "long_env = base_env\<lparr>fopen := map_of [(''f'', long_line @ [NL] @ ''TOKEN=abc'' @ [NL])]\<rparr>"

definition lineno_cfg :: search_config where
  "lineno_cfg = all_types_cfg
     \<lparr>content_regex := \<lparr>compiled = True, regexec = (\<lambda>s. CHR ''T'' \<in> set s)\<rparr>,
      with_line_number := True\<rparr>"

lemma takeWhile_until:
  "c \<notin> set l \<Longrightarrow> takeWhile (\<lambda>x. x \<noteq> c) (l @ r) = l @ takeWhile (\<lambda>x. x \<noteq> c) r"
  by (induction l) auto

lemma takeWhile_whole: "c \<notin> set l \<Longrightarrow> takeWhile (\<lambda>x. x \<noteq> c) l = l"
  using takeWhile_until [of c l "[]"] by simp

lemma c_str_id: "NUL \<notin> set s \<Longrightarrow> c_str s = s"
  by (simp add: c_str_def takeWhile_whole)

lemma fgets_line:
  assumes "NL \<notin> set l" and "length l + 2 \<le> n"
  shows "fgets n (l @ NL # r) = Some (l @ [NL], r)"
proof -
  have lim: "take (n - 1) (l @ NL # r) = l @ NL # take (n - 1 - length l - 1) r"
    using assms(2) by (simp add: take_Cons')
  have pre: "takeWhile (\<lambda>c. c \<noteq> NL) (l @ NL # take (n - 1 - length l - 1) r) = l"
    using assms(1) by (simp add: takeWhile_until)
  show ?thesis
    unfolding fgets_def lim Let_def pre by simp
qed

lemma fgets_full:
  assumes "NL \<notin> set l" and "length l = n - 1" and "l \<noteq> []"
  shows "fgets n (l @ r) = Some (l, r)"
proof -
  have lim: "take (n - 1) (l @ r) = l"
    using assms(2) by simp
  have pre: "takeWhile (\<lambda>c. c \<noteq> NL) l = l"
    using assms(1) by (simp add: takeWhile_whole)
  show ?thesis
    unfolding fgets_def lim Let_def pre using assms(3) by simp
qed

lemma chunks_of_lines:
  assumes "\<forall>l\<in>set ls. NL \<notin> set l \<and> length l + 2 \<le> n"
  shows "file_chunks n (file_of_lines ls) = map (\<lambda>l. l @ [NL]) ls"
  using assms
proof (induction ls)
  case Nil
  show ?case
    by (subst file_chunks.simps) (simp add: file_of_lines_def fgets_def)
next
  case (Cons l ls)
  then have l: "NL \<notin> set l" "length l + 2 \<le> n" by simp_all
  then have n: "\<not> n < 2" by simp
  have f: "file_of_lines (l # ls) = l @ NL # file_of_lines ls"
    by (simp add: file_of_lines_def)
  from Cons have ih: "file_chunks n (file_of_lines ls) = map (\<lambda>l. l @ [NL]) ls"
    by simp
  show ?case
    unfolding f
    by (subst file_chunks.simps) (simp add: n fgets_line [OF l] ih)
qed

lemma fgets_tail:
  assumes "NL \<notin> set t" and "length t + 1 \<le> n" and "t \<noteq> []"
  shows "fgets n t = Some (t, [])"
proof -
  have lim: "take (n - 1) t = t"
    using assms(2) by simp
  have pre: "takeWhile (\<lambda>c. c \<noteq> NL) t = t"
    using assms(1) by (simp add: takeWhile_whole)
  show ?thesis
    unfolding fgets_def lim Let_def pre using assms(3) by simp
qed

lemma chunks_of_lines_tail:
  assumes "\<forall>l\<in>set ls. NL \<notin> set l \<and> length l + 2 \<le> n"
    and "NL \<notin> set t" and "length t + 1 \<le> n" and "2 \<le> n"
  shows "file_chunks n (file_of_lines ls @ t) =
           map (\<lambda>l. l @ [NL]) ls @ (if t = [] then [] else [t])"
  using assms(1)
proof (induction ls)
  case Nil
  have e: "file_chunks n [] = []"
    by (subst file_chunks.simps) (simp add: fgets_def)
  have "file_chunks n t = [t]" if "t \<noteq> []"
    using assms(4) fgets_tail [OF assms(2,3) that] e
    by (subst file_chunks.simps) simp
  with e show ?case
    by (simp add: file_of_lines_def)
next
  case (Cons l ls)
  then have l: "NL \<notin> set l" "length l + 2 \<le> n" by simp_all
  then have n: "\<not> n < 2" by simp
  have f: "file_of_lines (l # ls) @ t = l @ NL # (file_of_lines ls @ t)"
    by (simp add: file_of_lines_def)
  from Cons have ih: "file_chunks n (file_of_lines ls @ t) =
                        map (\<lambda>l. l @ [NL]) ls @ (if t = [] then [] else [t])"
    by simp
  show ?case
    unfolding f
    by (subst file_chunks.simps) (simp add: n fgets_line [OF l] ih)
qed

lemma scan_chunks_append:
  assumes "with_line_number cfg"
  shows "scan_chunks cfg fpath (xs @ ys) k mf out =
           (case scan_chunks cfg fpath xs k mf out of
              (mf', out') \<Rightarrow> scan_chunks cfg fpath ys (k + int (length xs)) mf' out')"
  using assms by (induction xs arbitrary: k mf out) (simp_all add: add.assoc)

lemma scan_lines:
  assumes "with_line_number cfg" and "\<forall>l\<in>set ls. NL \<notin> set l \<and> NUL \<notin> set l"
  shows "scan_chunks cfg fpath (map (\<lambda>l. l @ [NL]) ls) k mf out =
           (if \<exists>l\<in>set ls. match_regex (content_regex cfg) (l @ [NL]) then 1 else mf,
            foldl fprintf out (line_records (content_regex cfg) fpath ls k))"
  using assms(2)
proof (induction ls arbitrary: k mf out)
  case Nil
  show ?case by simp
next
  case (Cons l ls)
  then have l: "NL \<notin> set l" "NUL \<notin> set l" by simp_all
  have c: "c_str (l @ [NL]) = l @ [NL]"
    using l(2) by (simp add: c_str_id)
  have t: "takeWhile (\<lambda>c. c \<noteq> NL) (l @ [NL]) = l"
    using l(1) by (simp add: takeWhile_until)
  from Cons have ih: "\<And>k mf out. scan_chunks cfg fpath (map (\<lambda>l. l @ [NL]) ls) k mf out =
           (if \<exists>l\<in>set ls. match_regex (content_regex cfg) (l @ [NL]) then 1 else mf,
            foldl fprintf out (line_records (content_regex cfg) fpath ls k))"
    by simp
  show ?case
    using assms(1) by (simp add: c t ih)
qed


lemma line_records_index:
  "line_records re fpath ls k =
     concat (map (\<lambda>i. if match_regex re (ls ! i @ [NL])
                        then [fpath @ '':'' @ show_int (k + int i) @ '':'' @ ls ! i @ [NL]]
                        else [])
                 [0..<length ls])"
proof (induction ls arbitrary: k)
  case Nil
  show ?case by simp
next
  case (Cons l ls)
  have u: "[0..<length (l # ls)] = 0 # map Suc [0..<length ls]"
    by (simp add: upt_conv_Cons map_Suc_upt del: upt_Suc)
  have a: "k + 1 + int i = k + int (Suc i)" for i
    by simp
  show ?case
    unfolding u by (simp add: Cons.IH [of "k + 1"] o_def a del: of_nat_Suc cong: if_cong)
qed

lemma search_file_lines:
  assumes "compiled (content_regex cfg)" and "with_line_number cfg"
    and "fopen e fpath = Some (file_of_lines ls @ t)"
    and "\<forall>l\<in>set ls. NL \<notin> set l \<and> NUL \<notin> set l \<and> length l \<le> 4094"
    and "NL \<notin> set t \<and> NUL \<notin> set t \<and> length t \<le> 4095"
  shows "search_file_content e cfg fpath out =
           (if (\<exists>l\<in>set ls. regexec (content_regex cfg) (l @ [NL])) \<or>
               (t \<noteq> [] \<and> regexec (content_regex cfg) t) then 1 else 0,
            foldl fprintf out
              (line_records (content_regex cfg) fpath ls 1 @
               (if t \<noteq> [] \<and> regexec (content_regex cfg) t
                then [fpath @ '':'' @ show_int (1 + int (length ls)) @ '':'' @ t @ [NL]]
                else [])))"
proof -
  from assms(4) have c: "\<forall>l\<in>set ls. NL \<notin> set l \<and> length l + 2 \<le> 4096"
    by auto
  from assms(4) have s: "\<forall>l\<in>set ls. NL \<notin> set l \<and> NUL \<notin> set l"
    by auto
  from assms(5) have t: "NL \<notin> set t" "length t + 1 \<le> 4096" "NUL \<notin> set t"
    by auto
  have ch: "file_chunks 4096 (file_of_lines ls @ t) =
              map (\<lambda>l. l @ [NL]) ls @ (if t = [] then [] else [t])"
    by (rule chunks_of_lines_tail [OF c t(1,2)]) simp
  have m: "match_regex (content_regex cfg) x = regexec (content_regex cfg) x" for x
    using assms(1) by (simp add: match_regex_def)
  have tw: "takeWhile (\<lambda>c. c \<noteq> NL) t = t"
    using t(1) by (simp add: takeWhile_whole)
  show ?thesis
    using assms(1,2,3)
    by (simp add: search_file_content_def ch scan_chunks_append [OF assms(2)]
          scan_lines [OF assms(2) s] m c_str_id [OF t(3)] tw)
qed

text \<open>
  Claim C8, as amended. Take a content regex together with the line-number flag, and a
  regular file that passes the five stages before the content stage and whose lines
  hold no NUL byte and at most 4094 bytes each, so that every line fits with its newline
  into the buffer of 4096 bytes (a last line without a newline may hold 4095). Then the
  filter writes to the stream, in order, exactly one record
  \<open>path:line-number:line-text\<close> for every line that the regex accepts (the line taken
  as read, its newline included, and numbered from 1); the content stage passes iff
  some line is accepted; and the match handler writes nothing and leaves the state as it
  is.
\<close>

theorem content_lines_reported:
  assumes "compiled (content_regex cfg)" and "with_line_number cfg"
    and "S_ISREG (st_mode sb)"
    and "fopen e full_path = Some (file_of_lines ls @ t)"
    and "\<forall>l\<in>set ls. NL \<notin> set l \<and> NUL \<notin> set l \<and> length l \<le> 4094"
    and "NL \<notin> set t \<and> NUL \<notin> set t \<and> length t \<le> 4095"
    and "filter_type cfg sb True" and "filter_name cfg d_name True"
    and "filter_size cfg sb True" and "filter_mtime cfg e sb True"
    and "filter_extension cfg d_name sb True"
  shows "snd (entry_filter e cfg d_name full_path sb out) =
           foldl fprintf out
             (concat (map (\<lambda>i. if regexec (content_regex cfg) (ls ! i @ [NL])
                                then [full_path @ '':'' @ show_int (1 + int i) @ '':''
                                      @ ls ! i @ [NL]]
                                else [])
                          [0..<length ls]) @
              (if t \<noteq> [] \<and> regexec (content_regex cfg) t
               then [full_path @ '':'' @ show_int (1 + int (length ls)) @ '':'' @ t @ [NL]]
               else [])) \<and>
         fst (filter_content e cfg full_path sb True out) =
           ((\<exists>l\<in>set ls. regexec (content_regex cfg) (l @ [NL])) \<or>
            (t \<noteq> [] \<and> regexec (content_regex cfg) t)) \<and>
         handle_match e cfg full_path type_char sb w = w"
proof -
  note sf = search_file_lines [OF assms(1,2,4,5,6), of out]
  have fc: "filter_content e cfg full_path sb True out =
              ((\<exists>l\<in>set ls. regexec (content_regex cfg) (l @ [NL])) \<or>
               (t \<noteq> [] \<and> regexec (content_regex cfg) t),
               foldl fprintf out
                 (line_records (content_regex cfg) full_path ls 1 @
                  (if t \<noteq> [] \<and> regexec (content_regex cfg) t
                   then [full_path @ '':'' @ show_int (1 + int (length ls)) @ '':'' @ t @ [NL]]
                   else [])))"
    using assms(1,3) by (simp add: filter_content_def sf)
  have m: "match_regex (content_regex cfg) x = regexec (content_regex cfg) x" for x
    using assms(1) by (simp add: match_regex_def)
  have "snd (entry_filter e cfg d_name full_path sb out) =
          snd (filter_content e cfg full_path sb True out)"
    using assms(7-11) by (simp add: entry_filter_unfold split: prod.split)
  moreover have "handle_match e cfg full_path type_char sb w = w"
    using assms(1,2) by (simp add: handle_match_def)
  ultimately show ?thesis
    by (simp add: fc line_records_index m)
qed


text \<open>The file \<open>a/secret.txt\<close> with three lines, the second of which holds \<open>TOKEN=abc\<close>.\<close>

definition secret_env :: env where
  "secret_env = base_env
     \<lparr>fopen := map_of [(''a/secret.txt'', file_of_lines [''x'', ''TOKEN=abc'', ''y''])]\<rparr>"

lemma lineno_cfg_fields:
  "compiled (content_regex lineno_cfg)" "with_line_number lineno_cfg"
  "regexec (content_regex lineno_cfg) = (\<lambda>s. CHR ''T'' \<in> set s)"
  "filter_type lineno_cfg file_stat True" "filter_name lineno_cfg d True"
  "filter_size lineno_cfg sb True" "filter_mtime lineno_cfg e sb True"
  "filter_extension lineno_cfg d sb True"
  by (simp_all add: lineno_cfg_def all_types_cfg_def init_search_config_def filter_type_def
        filter_name_def filter_size_def filter_mtime_def filter_extension_def stat_kinds
        match_regex_def any_regex_def TYPE_FILE_def)

theorem content_lines_reported_witness:
  "compiled (content_regex lineno_cfg) \<and> with_line_number lineno_cfg \<and>
   S_ISREG (st_mode file_stat) \<and>
   fopen secret_env ''a/secret.txt'' = Some (file_of_lines [''x'', ''TOKEN=abc'', ''y'']) \<and>
   data (snd (entry_filter secret_env lineno_cfg ''secret.txt'' ''a/secret.txt'' file_stat
                (new_stream False))) = ''a/secret.txt:2:TOKEN=abc'' @ [NL] \<and>
   fst (filter_content secret_env lineno_cfg ''a/secret.txt'' file_stat True (new_stream False))"
proof -
  have f: "fopen secret_env ''a/secret.txt'' = Some (file_of_lines [''x'', ''TOKEN=abc'', ''y''])"
    by (simp add: secret_env_def)
  have l: "\<forall>l\<in>set [''x'', ''TOKEN=abc'', ''y'']. NL \<notin> set l \<and> NUL \<notin> set l \<and> length l \<le> 4094"
    by simp
  have e: "NL \<notin> set [] \<and> NUL \<notin> set [] \<and> length ([] :: string) \<le> 4095"
    by simp
  have f': "fopen secret_env ''a/secret.txt'' =
              Some (file_of_lines [''x'', ''TOKEN=abc'', ''y''] @ [])"
    using f by simp
  note t = content_lines_reported [OF lineno_cfg_fields(1,2) stat_kinds(5) f' l e
             lineno_cfg_fields(4,5,6,7,8), of "''secret.txt''" "new_stream False"]
  have s2: "show_int 2 = ''2''"
    by (simp add: show_int_def show_nat.simps)
  from t show ?thesis
    by (simp add: lineno_cfg_fields stat_kinds f s2 appended_simps)
qed

text \<open>
  Claim C8 as stated fails on a line that does not fit into the buffer. The first line
  of the file has 4095 bytes; \<open>fgets\<close> returns it in two pieces, each counted as a
  line, and the matching second line \<open>TOKEN=abc\<close> is written with the number 3.
\<close>

theorem long_line_shifts_line_numbers:
  "fopen long_env ''f'' = Some (long_line @ [NL] @ ''TOKEN=abc'' @ [NL]) \<and>
   length long_line = 4095 \<and> NL \<notin> set long_line \<and>
   fst (search_file_content long_env lineno_cfg ''f'' (new_stream False)) = 1 \<and>
   data (snd (search_file_content long_env lineno_cfg ''f'' (new_stream False))) =
     ''f:3:TOKEN=abc'' @ [NL]"
proof -
  have f: "fopen long_env ''f'' = Some (long_line @ [NL] @ ''TOKEN=abc'' @ [NL])"
    by (simp add: long_env_def)
  have ll: "length long_line = 4095" "NL \<notin> set long_line" "NUL \<notin> set long_line"
    "long_line \<noteq> []" "CHR ''T'' \<notin> set long_line"
    by (simp_all add: long_line_def)
  have g1: "fgets 4096 (long_line @ NL # ''TOKEN=abc'' @ [NL]) =
              Some (long_line, NL # ''TOKEN=abc'' @ [NL])"
    by (rule fgets_full) (simp_all add: ll)
  have g2: "fgets 4096 ([] @ NL # ''TOKEN=abc'' @ [NL]) = Some ([] @ [NL], ''TOKEN=abc'' @ [NL])"
    by (rule fgets_line) simp_all
  have g3: "fgets 4096 (''TOKEN=abc'' @ NL # []) = Some (''TOKEN=abc'' @ [NL], [])"
    by (rule fgets_line) simp_all
  have g4: "fgets 4096 [] = None"
    by (simp add: fgets_def)
  have c3: "file_chunks 4096 (''TOKEN=abc'' @ [NL]) = [''TOKEN=abc'' @ [NL]]"
    using g3 g4 by (subst file_chunks.simps, simp, subst file_chunks.simps, simp)
  have c2: "file_chunks 4096 (NL # ''TOKEN=abc'' @ [NL]) = [[NL], ''TOKEN=abc'' @ [NL]]"
    using g2 c3 by (subst file_chunks.simps) simp
  have c1: "file_chunks 4096 (long_line @ [NL] @ ''TOKEN=abc'' @ [NL]) =
              [long_line, [NL], ''TOKEN=abc'' @ [NL]]"
    using g1 c2 by (subst file_chunks.simps) simp
  have s3: "show_int 3 = ''3''"
    by (simp add: show_int_def show_nat.simps)
  have "search_file_content long_env lineno_cfg ''f'' (new_stream False) =
          (1, appended False (''f:3:TOKEN=abc'' @ [NL]))"
    by (simp add: search_file_content_def f c1 [simplified] lineno_cfg_fields match_regex_def
          c_str_id ll s3 appended_simps)
  with f ll show ?thesis
    by (simp add: appended_simps)
qed



section \<open>The task pool as a queue\<close>










section \<open>What a task does to the pool and the active-task counter\<close>




















section \<open>Termination of the walk\<close>









section \<open>A submission that fails\<close>









section \<open>Two walks that differ in one ignore file\<close>



text \<open>
  The patterns behind a pointer to an ignore set (none behind the null pointer), and the
  pointers that are safe to follow: null, or the address of an allocated set with a positive
  count.
\<close>

definition pats_of :: "world \<Rightarrow> nat option \<Rightarrow> string list" where
  "pats_of w x =
     (case x of
        None \<Rightarrow> []
      | Some a \<Rightarrow> (case heap w a of None \<Rightarrow> [] | Some p \<Rightarrow> patterns p))"

definition live :: "world \<Rightarrow> nat option \<Rightarrow> bool" where
  "live w x \<longleftrightarrow>
     (case x of
        None \<Rightarrow> True
      | Some a \<Rightarrow> a < next_addr w \<and> (case heap w a of None \<Rightarrow> False | Some p \<Rightarrow> 1 \<le> refcount p))"


lemma live_None [simp]: "live w None"
  by (simp add: live_def)

lemma pats_of_None [simp]: "pats_of w None = []"
  by (simp add: pats_of_def)

text \<open>\<open>holds w w'\<close>: every pointer that is safe in \<open>w\<close> is safe in \<open>w'\<close>, with the same patterns.\<close>

definition holds :: "world \<Rightarrow> world \<Rightarrow> bool" where
  "holds w w' \<longleftrightarrow>
     next_addr w \<le> next_addr w' \<and>
     (\<forall>x. live w x \<longrightarrow> live w' x \<and> pats_of w' x = pats_of w x)"







lemma load_holds: "holds w (snd (load_ignore_file e p w))"
  by (auto simp: holds_def live_def pats_of_def load_ignore_file_def Let_def
           split: option.splits)












































lemma live_pool [simp]: "live (w\<lparr>pool := p\<rparr>) x = live w x"
  by (simp add: live_def split: option.split)

lemma pats_of_pool [simp]: "pats_of (w\<lparr>pool := p\<rparr>) x = pats_of w x"
  by (simp add: pats_of_def split: option.split)


























end
